theory Spec2Isabelle
  imports Main "HOL-Library.Log_Nat" "HOL-Library.Multiset"
begin

text \<open>
  A model of the rate estimator: the catalog of rate records (\<^verbatim>\<open>App.tsx\<close>,
  \<^verbatim>\<open>types.ts\<close>), the calls to the language-model service
  (\<^verbatim>\<open>services/geminiService.ts\<close>), and the tender processor with its totals, which the
  sources hold in two single-file builds: \<^verbatim>\<open>index.tsx\<close>, and a later one that stores
  the catalog under the key \<^verbatim>\<open>smart_rate_sor_v2\<close>. Rendering is modelled only where
  it decides whether \<^verbatim>\<open>handleProcess\<close> can run: the condition under which the build
  button exists and is enabled.
\<close>

section \<open>JavaScript values\<close>

subsection \<open>Numbers\<close>

text \<open>
  A JavaScript \<^verbatim>\<open>number\<close> is an IEEE-754 binary64 value: not-a-number, the two
  infinities, or a finite value, which is a rational. The sign of zero is not modelled
  (\<^verbatim>\<open>-0\<close> is falsy, equal to \<^verbatim>\<open>0\<close> under \<^verbatim>\<open>===\<close>, and adds like \<^verbatim>\<open>0\<close>
  in everything below). A finite value \<open>Fin q\<close> is meant to hold a \<open>q\<close> that binary64
  represents; the arithmetic operations round their exact result to such a value.
\<close>

datatype jsnum = NaN | PosInf | NegInf | Fin rat

text \<open>\<open>ilog2 x\<close> is the binary exponent of a non-zero rational: \<open>2 powi ilog2 x \<le> \<bar>x\<bar> < 2 powi (ilog2 x + 1)\<close>.\<close>

definition ilog2 :: "rat \<Rightarrow> int" where
  "ilog2 x = (let (p, q) = quotient_of \<bar>x\<bar>; k = bitlen p - bitlen q
              in if 2 powi k \<le> \<bar>x\<bar> then k else k - 1)"

definition roundTiesToEven :: "rat \<Rightarrow> int" where
  "roundTiesToEven y = (let f = \<lfloor>y\<rfloor>; d = y - of_int f
     in if d < 1 / 2 then f else if 1 / 2 < d then f + 1 else if even f then f else f + 1)"

text \<open>
  Rounding of an exact result to binary64, to nearest with ties to even: 53 significant
  bits, the unit in the last place bounded below by \<open>2 powi - 1074\<close> (subnormal range),
  and overflow to an infinity when the rounded magnitude reaches \<open>2 ^ 1024\<close>.
\<close>

definition round64 :: "rat \<Rightarrow> jsnum" where
  "round64 x = (if x = 0 then Fin 0 else
     let u = 2 powi (max (ilog2 x) (- 1022) - 52);
         r = of_int (roundTiesToEven (x / u)) * u
     in if 2 ^ 1024 \<le> \<bar>r\<bar> then (if 0 < r then PosInf else NegInf) else Fin r)"

text \<open>The operator \<^verbatim>\<open>+\<close> on two numbers.\<close>

fun jsAdd :: "jsnum \<Rightarrow> jsnum \<Rightarrow> jsnum" where
  "jsAdd NaN _ = NaN"
| "jsAdd _ NaN = NaN"
| "jsAdd PosInf NegInf = NaN"
| "jsAdd NegInf PosInf = NaN"
| "jsAdd PosInf _ = PosInf"
| "jsAdd _ PosInf = PosInf"
| "jsAdd NegInf _ = NegInf"
| "jsAdd _ NegInf = NegInf"
| "jsAdd (Fin a) (Fin b) = round64 (a + b)"

text \<open>The operator \<^verbatim>\<open>*\<close> on two numbers.\<close>

fun signOf :: "jsnum \<Rightarrow> int" where
  "signOf NaN = 0"
| "signOf PosInf = 1"
| "signOf NegInf = - 1"
| "signOf (Fin q) = (if 0 < q then 1 else if q < 0 then - 1 else 0)"

fun jsMul :: "jsnum \<Rightarrow> jsnum \<Rightarrow> jsnum" where
  "jsMul NaN _ = NaN"
| "jsMul _ NaN = NaN"
| "jsMul (Fin a) (Fin b) = round64 (a * b)"
| "jsMul x y = (let s = signOf x * signOf y
                in if s = 0 then NaN else if 0 < s then PosInf else NegInf)"

text \<open>Truthiness of a number: \<^verbatim>\<open>0\<close> and \<^verbatim>\<open>NaN\<close> are falsy.\<close>

fun numTruthy :: "jsnum \<Rightarrow> bool" where
  "numTruthy NaN = False"
| "numTruthy (Fin q) = (q \<noteq> 0)"
| "numTruthy _ = True"

text \<open>Strict equality \<^verbatim>\<open>===\<close> of two numbers: \<^verbatim>\<open>NaN\<close> equals nothing.\<close>

definition numEq :: "jsnum \<Rightarrow> jsnum \<Rightarrow> bool" where
  "numEq a b = (a \<noteq> NaN \<and> a = b)"

text \<open>The comparison \<^verbatim>\<open><\<close> of two numbers: false when either is \<^verbatim>\<open>NaN\<close>.\<close>

fun numLt :: "jsnum \<Rightarrow> jsnum \<Rightarrow> bool" where
  "numLt NaN _ = False"
| "numLt _ NaN = False"
| "numLt (Fin a) (Fin b) = (a < b)"
| "numLt NegInf b = (b \<noteq> NegInf)"
| "numLt a PosInf = (a \<noteq> PosInf)"
| "numLt _ _ = False"

text \<open>
  \<^verbatim>\<open>Math.min(...xs)\<close>: \<^verbatim>\<open>Infinity\<close> for no argument, \<^verbatim>\<open>NaN\<close> as soon as one argument
  is \<^verbatim>\<open>NaN\<close>, the least argument otherwise.
\<close>

definition min2 :: "jsnum \<Rightarrow> jsnum \<Rightarrow> jsnum" where
  "min2 lowest n = (if lowest = NaN \<or> n = NaN then NaN else if numLt n lowest then n else lowest)"

definition Math_min :: "jsnum list \<Rightarrow> jsnum" where
  "Math_min xs = foldl min2 PosInf xs"

subsection \<open>Strings\<close>

text \<open>
  A string is the sequence of its UTF-16 code units, each a natural number below
  \<open>65536\<close>. \<open>utf16\<close> gives the code units of a literal of the sources written in ASCII
  characters, which are the codes of its characters.
\<close>

type_synonym jsstring = "nat list"

definition utf16 :: "string \<Rightarrow> jsstring" where
  "utf16 s = map of_char s"

text \<open>
  The code units that \<^verbatim>\<open>trim\<close> strips: the white space and the line terminators of
  ECMAScript, that is tab, line feed, vertical tab, form feed, carriage return, space,
  no-break space, U+1680, U+2000 to U+200A, U+2028, U+2029, U+202F, U+205F, U+3000 and
  U+FEFF. Each is a single code unit.
\<close>

definition isWhite :: "nat \<Rightarrow> bool" where
  "isWhite c =
     (c \<in> set [0x9, 0xA, 0xB, 0xC, 0xD, 0x20, 0xA0, 0x1680, 0x2028, 0x2029, 0x202F, 0x205F,
                0x3000, 0xFEFF]
      \<or> (0x2000 \<le> c \<and> c \<le> 0x200A))"

definition trim :: "jsstring \<Rightarrow> jsstring" where
  "trim s = rev (dropWhile isWhite (rev (dropWhile isWhite s)))"

text \<open>
  The iteration of a string goes by code points: a high surrogate followed by a low
  surrogate is one element, every other code unit is an element of its own.
\<close>

fun codePoints :: "jsstring \<Rightarrow> jsstring list" where
  "codePoints (h # l # rest) =
     (if 0xD800 \<le> h \<and> h \<le> 0xDBFF \<and> 0xDC00 \<le> l \<and> l \<le> 0xDFFF
      then [h, l] # codePoints rest
      else [h] # codePoints (l # rest))"
| "codePoints [c] = [[c]]"
| "codePoints [] = []"

text \<open>
  \<^verbatim>\<open>String.prototype.toLowerCase\<close> is not defined here: the functions that call it take
  it as a parameter (\<open>lower\<close>, or the field \<open>toLowerCase\<close> of the environment below).
\<close>

subsection \<open>Untyped values\<close>

text \<open>
  What \<^verbatim>\<open>JSON.parse\<close> returns (typed \<^verbatim>\<open>any\<close> in the source), together with
  \<^verbatim>\<open>undefined\<close>, the value of an absent property. An object is the list of its
  own properties, whose keys are distinct.
\<close>

datatype jsval =
    JUndefined
  | JNull
  | JBool bool
  | JNum jsnum
  | JStr jsstring
  | JArr "jsval list"
  | JObj "(jsstring \<times> jsval) list"

datatype error = TypeError | SyntaxError

fun truthy :: "jsval \<Rightarrow> bool" where
  "truthy JUndefined = False"
| "truthy JNull = False"
| "truthy (JBool b) = b"
| "truthy (JNum n) = numTruthy n"
| "truthy (JStr s) = (s \<noteq> [])"
| "truthy (JArr _) = True"
| "truthy (JObj _) = True"

text \<open>The operator \<^verbatim>\<open>a || b\<close>.\<close>

definition orElse :: "jsval \<Rightarrow> jsval \<Rightarrow> jsval" where
  "orElse a b = (if truthy a then a else b)"

definition nullish :: "jsval \<Rightarrow> bool" where
  "nullish v = (v = JUndefined \<or> v = JNull)"

text \<open>
  Reading a property \<^verbatim>\<open>v.k\<close> of a value that is neither \<^verbatim>\<open>null\<close> nor
  \<^verbatim>\<open>undefined\<close>, for the property names read here (\<^verbatim>\<open>name\<close>, \<^verbatim>\<open>quantity\<close>,
  \<^verbatim>\<open>requestedScope\<close>, \<^verbatim>\<open>estimatedRate\<close>, \<^verbatim>\<open>matchedId\<close>, and the fields of a rate
  record): none of them exists on the prototype of an object, an array, a string, a number
  or a boolean. The name \<open>k\<close> is a literal of the sources.
\<close>

fun readProp :: "jsval \<Rightarrow> string \<Rightarrow> jsval" where
  "readProp (JObj kvs) k = (case map_of kvs (utf16 k) of Some v \<Rightarrow> v | None \<Rightarrow> JUndefined)"
| "readProp _ k = JUndefined"

text \<open>Reading a property of \<^verbatim>\<open>null\<close> or \<^verbatim>\<open>undefined\<close> throws a \<^verbatim>\<open>TypeError\<close>.\<close>

definition getProp :: "jsval \<Rightarrow> string \<Rightarrow> error + jsval" where
  "getProp v k = (if nullish v then Inl TypeError else Inr (readProp v k))"

text \<open>
  The values \<^verbatim>\<open>for (const p of v)\<close> runs through: the elements of an array, the
  code points of a string; any other value is not iterable.
\<close>

fun iterate :: "jsval \<Rightarrow> error + jsval list" where
  "iterate (JArr xs) = Inr xs"
| "iterate (JStr s) = Inr (map JStr (codePoints s))"
| "iterate _ = Inl TypeError"

text \<open>
  Conversion of an operand of \<^verbatim>\<open>*\<close> to a number. The conversion of a string, an array
  or an object (parsing of numeric literals, \<^verbatim>\<open>ToPrimitive\<close>) is the parameter \<open>coerce\<close>.
\<close>

fun ToNumber :: "(jsval \<Rightarrow> jsnum) \<Rightarrow> jsval \<Rightarrow> jsnum" where
  "ToNumber coerce JUndefined = NaN"
| "ToNumber coerce JNull = Fin 0"
| "ToNumber coerce (JBool b) = (if b then Fin 1 else Fin 0)"
| "ToNumber coerce (JNum n) = n"
| "ToNumber coerce v = coerce v"

section \<open>Data model (\<^verbatim>\<open>types.ts\<close>)\<close>

text \<open>
  The fields \<^verbatim>\<open>id\<close>, \<^verbatim>\<open>name\<close> and \<^verbatim>\<open>unit\<close> of a rate record are \<open>sor_id\<close>,
  \<open>sor_name\<close> and \<open>sor_unit\<close> here, and the fields \<^verbatim>\<open>id\<close> and \<^verbatim>\<open>name\<close> of a tender
  item are \<open>item_id\<close> and \<open>item_name\<close>.
\<close>

record SORItem =
  sor_id :: jsstring
  sor_name :: jsstring
  sor_unit :: jsstring
  rate :: jsnum
  scopeOfWork :: jsstring
  source :: jsstring
  timestamp :: jsnum

datatype status = Pending | Matched | Review | NoMatch

text \<open>
  A \<^verbatim>\<open>TenderItem\<close>. The interface declares \<^verbatim>\<open>name\<close> and \<^verbatim>\<open>requestedScope\<close> strings and
  \<^verbatim>\<open>quantity\<close> a number; \<^verbatim>\<open>handleProcess\<close> fills them from values typed \<^verbatim>\<open>any\<close>,
  so the fields hold untyped values.
\<close>

record TenderItem =
  item_id :: jsstring
  item_name :: jsval
  quantity :: jsval
  requestedScope :: jsval
  estimatedRate :: jsval
  matchedRate :: "SORItem option"
  status :: status

text \<open>
  \<^verbatim>\<open>Omit<SORItem, 'id' | 'timestamp'>\<close>, the data of the rate form: the fields
  \<^verbatim>\<open>name\<close>, \<^verbatim>\<open>unit\<close>, \<^verbatim>\<open>rate\<close>, \<^verbatim>\<open>scopeOfWork\<close> and \<^verbatim>\<open>source\<close>.
\<close>

record RateData =
  new_name :: jsstring
  new_unit :: jsstring
  new_rate :: jsnum
  new_scopeOfWork :: jsstring
  new_source :: jsstring

section \<open>The external language-model service\<close>

text \<open>
  The calls of \<^verbatim>\<open>ai.models.generateContent\<close>: what is asked, and what comes back.
  A call either rejects (network, quota, refusal) or resolves to a response whose
  \<^verbatim>\<open>text\<close> may be undefined. The service is not deterministic: its answer is a
  function of the request and of all the requests made before it, which also serve as the
  record of which calls were made.
\<close>

datatype request =
    ExtractItems jsstring
  | BestMatch jsval jsval "(jsstring \<times> jsstring) list"

datatype reply = Rejected | Response "jsstring option"

text \<open>
  What the program takes from its surroundings: the service, \<^verbatim>\<open>JSON.parse\<close>
  (\<open>None\<close> when it throws a \<^verbatim>\<open>SyntaxError\<close>), \<^verbatim>\<open>String.prototype.toLowerCase\<close>, and
  \<^verbatim>\<open>crypto.randomUUID\<close>, which is given the position of the item it names.
\<close>

record env =
  generateContent :: "request list \<Rightarrow> request \<Rightarrow> reply"
  JSON_parse :: "jsstring \<Rightarrow> jsval option"
  toLowerCase :: "jsstring \<Rightarrow> jsstring"
  randomUUID :: "nat \<Rightarrow> jsstring"

text \<open>\<^verbatim>\<open>response.text || dflt\<close>.\<close>

definition textOr :: "jsstring option \<Rightarrow> jsstring \<Rightarrow> jsstring" where
  "textOr t dflt = (case t of None \<Rightarrow> dflt | Some s \<Rightarrow> if s = [] then dflt else s)"

text \<open>
  \<^verbatim>\<open>findBestMatchingItem\<close> (the same in \<^verbatim>\<open>services/geminiService.ts\<close> and in the two
  single-file builds): \<^verbatim>\<open>null\<close> without any call when the list is empty; otherwise
  one call, whose every failure is caught and answered \<^verbatim>\<open>null\<close>.
\<close>

definition findBestMatchingItem ::
  "env \<Rightarrow> jsval \<Rightarrow> jsval \<Rightarrow> (jsstring \<times> jsstring) list \<Rightarrow> request list
     \<Rightarrow> jsval \<times> request list" where
  "findBestMatchingItem e targetItemName targetScope dbItems lg =
     (if dbItems = [] then (JNull, lg)
      else
        let req = BestMatch targetItemName targetScope dbItems; lg' = lg @ [req] in
        case generateContent e lg req of
          Rejected \<Rightarrow> (JNull, lg')
        | Response t \<Rightarrow>
            (case JSON_parse e (textOr t (utf16 ''{}'')) of
               None \<Rightarrow> (JNull, lg')
             | Some result \<Rightarrow>
                 (case getProp result ''matchedId'' of
                    Inl _ \<Rightarrow> (JNull, lg')
                  | Inr m \<Rightarrow> (orElse m JNull, lg'))))"

text \<open>\<^verbatim>\<open>parseBulkItems\<close>: one call; every failure is caught and answered \<^verbatim>\<open>[]\<close>.\<close>

definition parseBulkItems :: "env \<Rightarrow> jsstring \<Rightarrow> request list \<Rightarrow> jsval \<times> request list" where
  "parseBulkItems e text lg =
     (let req = ExtractItems text; lg' = lg @ [req] in
      case generateContent e lg req of
        Rejected \<Rightarrow> (JArr [], lg')
      | Response t \<Rightarrow>
          (case JSON_parse e (textOr t (utf16 ''[]'')) of
             None \<Rightarrow> (JArr [], lg')
           | Some v \<Rightarrow> (v, lg')))"

section \<open>The tender processor\<close>

text \<open>
  The two builds of \<^verbatim>\<open>TenderProcessor\<close> in the sources: the one of \<^verbatim>\<open>index.tsx\<close>
  and the one of the second single-file build (storage key \<^verbatim>\<open>smart_rate_sor_v2\<close>).
  The component of \<^verbatim>\<open>App.tsx\<close>, \<^verbatim>\<open>components/TenderProcessor.tsx\<close>, is not among
  the sources.
\<close>

datatype build = Index_tsx | Build_v2

record processor =
  inputText :: jsstring
  items :: "TenderItem list"
  processing :: bool

text \<open>\<^verbatim>\<open>sorData.find(d => d.id === matchedId)\<close>.\<close>

definition findById :: "SORItem list \<Rightarrow> jsval \<Rightarrow> SORItem option" where
  "findById sorData matchedId = find (\<lambda>d. JStr (sor_id d) = matchedId) sorData"

text \<open>
  The status expression. In \<^verbatim>\<open>index.tsx\<close>: \<^verbatim>\<open>bestMatch ? 'review' : 'no-match'\<close>.
  In the second build:
  \<^verbatim>\<open>match ? (match.name.toLowerCase() === p.name.toLowerCase() ? 'matched' : 'review') : 'no-match'\<close>,
  where \<^verbatim>\<open>p.name.toLowerCase()\<close> throws unless \<^verbatim>\<open>p.name\<close> is a string.
\<close>

definition statusOf ::
  "build \<Rightarrow> (jsstring \<Rightarrow> jsstring) \<Rightarrow> SORItem option \<Rightarrow> jsval \<Rightarrow> error + status" where
  "statusOf b lower match pname =
     (case match of
        None \<Rightarrow> Inr NoMatch
      | Some m \<Rightarrow>
          (case b of
             Index_tsx \<Rightarrow> Inr Review
           | Build_v2 \<Rightarrow>
               (case pname of
                  JStr s \<Rightarrow> Inr (if lower (sor_name m) = lower s then Matched else Review)
                | _ \<Rightarrow> Inl TypeError)))"

text \<open>The body of the loop of \<^verbatim>\<open>handleProcess\<close> for one extracted value \<open>p\<close>.\<close>

definition processOne ::
  "build \<Rightarrow> env \<Rightarrow> SORItem list \<Rightarrow> nat \<Rightarrow> jsval \<Rightarrow> request list \<Rightarrow> (error + TenderItem) \<times> request list" where
  "processOne b e sorData n p lg =
     (if nullish p then (Inl TypeError, lg)
      else
        let (matchedId, lg') =
              findBestMatchingItem e (readProp p ''name'') (readProp p ''requestedScope'')
                (map (\<lambda>d. (sor_id d, sor_name d)) sorData) lg;
            match = findById sorData matchedId
        in case statusOf b (toLowerCase e) match (readProp p ''name'') of
             Inl err \<Rightarrow> (Inl err, lg')
           | Inr st \<Rightarrow>
               (Inr \<lparr> item_id = randomUUID e n,
                      item_name = readProp p ''name'',
                      quantity = orElse (readProp p ''quantity'') (JNum (Fin 1)),
                      requestedScope = readProp p ''requestedScope'',
                      estimatedRate = readProp p ''estimatedRate'',
                      matchedRate = match,
                      status = st \<rparr>, lg'))"

text \<open>The loop: the results so far are \<open>acc\<close>; an exception ends it.\<close>

fun processItems ::
  "build \<Rightarrow> env \<Rightarrow> SORItem list \<Rightarrow> jsval list \<Rightarrow> TenderItem list \<Rightarrow> request list
     \<Rightarrow> (error + TenderItem list) \<times> request list" where
  "processItems b e sorData [] acc lg = (Inr acc, lg)"
| "processItems b e sorData (p # ps) acc lg =
     (case processOne b e sorData (length acc) p lg of
        (Inl err, lg') \<Rightarrow> (Inl err, lg')
      | (Inr it, lg') \<Rightarrow> processItems b e sorData ps (acc @ [it]) lg')"

text \<open>
  \<^verbatim>\<open>handleProcess\<close>. The second build returns at once on a blank input; \<^verbatim>\<open>index.tsx\<close>
  has no such test. An exception leaves the component as it was but for
  \<^verbatim>\<open>processing\<close>, and is the result \<open>Inl\<close>.
\<close>

definition handleProcess ::
  "build \<Rightarrow> env \<Rightarrow> SORItem list \<Rightarrow> processor \<Rightarrow> request list \<Rightarrow> (error + processor) \<times> request list" where
  "handleProcess b e sorData st lg =
     (if b = Build_v2 \<and> trim (inputText st) = [] then (Inr st, lg)
      else
        let (parsed, lg1) = parseBulkItems e (inputText st) lg in
        case iterate parsed of
          Inl err \<Rightarrow> (Inl err, lg1)
        | Inr ps \<Rightarrow>
            (case processItems b e sorData ps [] lg1 of
               (Inl err, lg2) \<Rightarrow> (Inl err, lg2)
             | (Inr results, lg2) \<Rightarrow> (Inr (st\<lparr>items := results, processing := False\<rparr>), lg2)))"

text \<open>
  The button that runs \<^verbatim>\<open>handleProcess\<close>. It is rendered only while there is no item,
  and is disabled while processing or on a blank input, and in the second build also
  when the catalog is empty.
\<close>

definition buildDisabled :: "build \<Rightarrow> SORItem list \<Rightarrow> processor \<Rightarrow> bool" where
  "buildDisabled b sorData st =
     (processing st \<or> trim (inputText st) = [] \<or> (b = Build_v2 \<and> sorData = []))"

definition clickBuild ::
  "build \<Rightarrow> env \<Rightarrow> SORItem list \<Rightarrow> processor \<Rightarrow> request list \<Rightarrow> (error + processor) \<times> request list" where
  "clickBuild b e sorData st lg =
     (if items st = [] \<and> \<not> buildDisabled b sorData st then handleProcess b e sorData st lg
      else (Inr st, lg))"

subsection \<open>Totals\<close>

text \<open>\<^verbatim>\<open>item.matchedRate?.rate || 0\<close>.\<close>

definition rateOrZero :: "SORItem option \<Rightarrow> jsnum" where
  "rateOrZero m = (case m of None \<Rightarrow> Fin 0 | Some r \<Rightarrow> if numTruthy (rate r) then rate r else Fin 0)"

text \<open>\<^verbatim>\<open>item.quantity * (item.matchedRate?.rate || 0)\<close>.\<close>

definition lineAmount :: "(jsval \<Rightarrow> jsnum) \<Rightarrow> TenderItem \<Rightarrow> jsnum" where
  "lineAmount coerce item = jsMul (ToNumber coerce (quantity item)) (rateOrZero (matchedRate item))"

text \<open>\<^verbatim>\<open>items.reduce((sum, item) => sum + (item.quantity * (item.matchedRate?.rate || 0)), 0)\<close>.\<close>

definition calculateTotal :: "(jsval \<Rightarrow> jsnum) \<Rightarrow> TenderItem list \<Rightarrow> jsnum" where
  "calculateTotal coerce its = foldl (\<lambda>sum item. jsAdd sum (lineAmount coerce item)) (Fin 0) its"

section \<open>The rate list\<close>

text \<open>
  \<^verbatim>\<open>isLowest\<close>:
  \<^verbatim>\<open>sameItems = allRates.filter(r => r.name.toLowerCase() === item.name.toLowerCase())\<close>, then
  \<^verbatim>\<open>sameItems.length > 1 && item.rate === Math.min(...sameItems.map(r => r.rate))\<close>.
  The parameter \<open>lower\<close> is \<^verbatim>\<open>toLowerCase\<close>.
\<close>

definition sameItems :: "(jsstring \<Rightarrow> jsstring) \<Rightarrow> SORItem list \<Rightarrow> SORItem \<Rightarrow> SORItem list" where
  "sameItems lower allRates item = filter (\<lambda>r. lower (sor_name r) = lower (sor_name item)) allRates"

definition isLowest :: "(jsstring \<Rightarrow> jsstring) \<Rightarrow> SORItem list \<Rightarrow> SORItem \<Rightarrow> bool" where
  "isLowest lower allRates item =
     (1 < length (sameItems lower allRates item)
      \<and> numEq (rate item) (Math_min (map rate (sameItems lower allRates item))))"

section \<open>The application\<close>

datatype view = Database | Tender

record app =
  view :: view
  sorData :: "SORItem list"
  isFormOpen :: bool
  editingItem :: "SORItem option"
  searchQuery :: jsstring

text \<open>\<^verbatim>\<open>{ ...item, id: i, timestamp: t }\<close>.\<close>

definition withIdentity :: "RateData \<Rightarrow> jsstring \<Rightarrow> jsnum \<Rightarrow> SORItem" where
  "withIdentity item i t =
     \<lparr> sor_id = i, sor_name = new_name item, sor_unit = new_unit item, rate = new_rate item,
       scopeOfWork = new_scopeOfWork item, source = new_source item, timestamp = t \<rparr>"

text \<open>
  \<^verbatim>\<open>handleAddOrUpdateRate\<close> (the same in \<^verbatim>\<open>App.tsx\<close> and in the two single-file builds);
  \<open>uuid\<close> and \<open>now\<close> are the values of \<^verbatim>\<open>crypto.randomUUID()\<close> and \<^verbatim>\<open>Date.now()\<close>.
\<close>

definition handleAddOrUpdateRate :: "jsstring \<Rightarrow> jsnum \<Rightarrow> RateData \<Rightarrow> app \<Rightarrow> app" where
  "handleAddOrUpdateRate uuid now item st =
     (case editingItem st of
        Some ed \<Rightarrow>
          st\<lparr> sorData := map (\<lambda>r. if sor_id r = sor_id ed
                                   then withIdentity item (sor_id r) (timestamp r) else r) (sorData st),
              isFormOpen := False, editingItem := None \<rparr>
      | None \<Rightarrow>
          st\<lparr> sorData := sorData st @ [withIdentity item uuid now],
              isFormOpen := False, editingItem := None \<rparr>)"

text \<open>
  The stored catalog is read with \<^verbatim>\<open>JSON.parse\<close> and passed to \<^verbatim>\<open>setSorData\<close>
  unchecked. A parsed value is a catalog, of type \<^verbatim>\<open>SORItem[]\<close>, when it is an array of
  objects that have the seven fields of a rate record at their types.
\<close>

definition asString :: "jsval \<Rightarrow> jsstring option" where
  "asString v = (case v of JStr s \<Rightarrow> Some s | _ \<Rightarrow> None)"

definition asNumber :: "jsval \<Rightarrow> jsnum option" where
  "asNumber v = (case v of JNum n \<Rightarrow> Some n | _ \<Rightarrow> None)"

definition asRecord :: "jsval \<Rightarrow> SORItem option" where
  "asRecord v =
     Option.bind (asString (readProp v ''id'')) (\<lambda>i.
     Option.bind (asString (readProp v ''name'')) (\<lambda>n.
     Option.bind (asString (readProp v ''unit'')) (\<lambda>u.
     Option.bind (asNumber (readProp v ''rate'')) (\<lambda>r.
     Option.bind (asString (readProp v ''scopeOfWork'')) (\<lambda>sc.
     Option.bind (asString (readProp v ''source'')) (\<lambda>so.
     Option.bind (asNumber (readProp v ''timestamp'')) (\<lambda>t.
       Some \<lparr> sor_id = i, sor_name = n, sor_unit = u, rate = r, scopeOfWork = sc,
              source = so, timestamp = t \<rparr>)))))))"

definition asCatalog :: "jsval \<Rightarrow> SORItem list option" where
  "asCatalog v = (case v of JArr xs \<Rightarrow> those (map asRecord xs) | _ \<Rightarrow> None)"

text \<open>
  What the effect that loads the catalog on start comes to: an exception, a state of the
  application, or a call of \<^verbatim>\<open>setSorData\<close> with a value that is not a catalog, after
  which the state is outside its declared type (the renders that follow are not
  modelled).
\<close>

datatype loaded = Threw error | Loaded app | Untyped jsval

text \<open>
  \<open>saved\<close> is the value of \<^verbatim>\<open>localStorage.getItem\<close> (\<open>None\<close> for \<^verbatim>\<open>null\<close>), and \<open>parse\<close>
  is \<^verbatim>\<open>JSON.parse\<close> (\<open>None\<close> when it throws a \<^verbatim>\<open>SyntaxError\<close>). In \<^verbatim>\<open>App.tsx\<close> the
  parse is inside \<^verbatim>\<open>try\<close>, and the handler sets the empty catalog.
\<close>

definition loadEffect_App ::
  "(jsstring \<Rightarrow> jsval option) \<Rightarrow> jsstring option \<Rightarrow> app \<Rightarrow> loaded" where
  "loadEffect_App parse saved st =
     (case saved of
        None \<Rightarrow> Loaded st
      | Some s \<Rightarrow>
          if s = [] then Loaded st
          else (case parse s of
                  Some v \<Rightarrow> (case asCatalog v of
                               Some c \<Rightarrow> Loaded (st\<lparr>sorData := c\<rparr>)
                             | None \<Rightarrow> Untyped v)
                | None \<Rightarrow> Loaded (st\<lparr>sorData := []\<rparr>)))"

text \<open>
  In \<^verbatim>\<open>index.tsx\<close> and in the second single-file build the effect is
  \<^verbatim>\<open>if (saved) setSorData(JSON.parse(saved))\<close>, with no \<^verbatim>\<open>try\<close>: the exception
  leaves the effect.
\<close>

definition loadEffect_inline ::
  "(jsstring \<Rightarrow> jsval option) \<Rightarrow> jsstring option \<Rightarrow> app \<Rightarrow> loaded" where
  "loadEffect_inline parse saved st =
     (case saved of
        None \<Rightarrow> Loaded st
      | Some s \<Rightarrow>
          if s = [] then Loaded st
          else (case parse s of
                  Some v \<Rightarrow> (case asCatalog v of
                               Some c \<Rightarrow> Loaded (st\<lparr>sorData := c\<rparr>)
                             | None \<Rightarrow> Untyped v)
                | None \<Rightarrow> Threw SyntaxError))"

section \<open>Notions of the specification\<close>

text \<open>The order \<^verbatim>\<open><=\<close> of numbers, in which \<^verbatim>\<open>NaN\<close> is related to nothing.\<close>

definition numLe :: "jsnum \<Rightarrow> jsnum \<Rightarrow> bool" where
  "numLe a b = (numLt a b \<or> numEq a b)"

text \<open>
  What one turn of the loop of \<^verbatim>\<open>handleProcess\<close> establishes between the extracted
  value \<open>p\<close> and the item \<open>it\<close> it pushes.
\<close>

definition madeFrom ::
  "build \<Rightarrow> (jsstring \<Rightarrow> jsstring) \<Rightarrow> SORItem list \<Rightarrow> jsval \<Rightarrow> TenderItem \<Rightarrow> bool" where
  "madeFrom b lower sor p it =
     (\<not> nullish p
      \<and> item_name it = readProp p ''name''
      \<and> quantity it = orElse (readProp p ''quantity'') (JNum (Fin 1))
      \<and> requestedScope it = readProp p ''requestedScope''
      \<and> estimatedRate it = readProp p ''estimatedRate''
      \<and> (case matchedRate it of None \<Rightarrow> True | Some d \<Rightarrow> d \<in> set sor)
      \<and> statusOf b lower (matchedRate it) (readProp p ''name'') = Inr (status it))"

text \<open>
  The exact amount of a line, \<open>quantity \<times> rate\<close> in the rationals (zero without a matched
  record), and the lines whose quantity and matched rate are whole numbers.
\<close>

definition isInt :: "rat \<Rightarrow> bool" where
  "isInt q = (of_int \<lfloor>q\<rfloor> = q)"

definition exactAmount :: "TenderItem \<Rightarrow> rat" where
  "exactAmount it =
     (case quantity it of
        JNum (Fin q) \<Rightarrow>
          (case matchedRate it of
             None \<Rightarrow> 0
           | Some r \<Rightarrow> (case rate r of Fin x \<Rightarrow> q * x | _ \<Rightarrow> 0))
      | _ \<Rightarrow> 0)"

definition wholeAmounts :: "TenderItem \<Rightarrow> bool" where
  "wholeAmounts it =
     (case quantity it of
        JNum (Fin q) \<Rightarrow>
          isInt q \<and> (case matchedRate it of
                       None \<Rightarrow> True
                     | Some r \<Rightarrow> (case rate r of Fin x \<Rightarrow> isInt x | _ \<Rightarrow> False))
      | _ \<Rightarrow> False)"

section \<open>Sample data\<close>

definition excavationA :: SORItem where
  "excavationA = \<lparr> sor_id = utf16 ''A'', sor_name = utf16 ''Excavation'', sor_unit = utf16 ''m3'', rate = Fin 100,
       scopeOfWork = utf16 ''Excavation in ordinary soil'', source = utf16 ''PWD 2023'',
       timestamp = Fin 1700000000000 \<rparr>"

definition excavationB :: SORItem where
  "excavationB = \<lparr> sor_id = utf16 ''B'', sor_name = utf16 ''Excavation'', sor_unit = utf16 ''m3'', rate = Fin 80,
       scopeOfWork = utf16 ''Excavation in ordinary soil'', source = utf16 ''Vendor quote'',
       timestamp = Fin 1700000000001 \<rparr>"

definition excavationC :: SORItem where
  "excavationC = \<lparr> sor_id = utf16 ''C'', sor_name = utf16 ''EXCAVATION'', sor_unit = utf16 ''m3'', rate = Fin 80,
       scopeOfWork = utf16 ''Excavation, all soils'', source = [], timestamp = Fin 1700000000002 \<rparr>"

definition giPipe :: SORItem where
  "giPipe = \<lparr> sor_id = utf16 ''D'', sor_name = utf16 ''GI Pipe 25mm'', sor_unit = utf16 ''m'', rate = Fin 120,
       scopeOfWork = utf16 ''Supply and fixing of GI pipe'', source = [],
       timestamp = Fin 1700000000003 \<rparr>"

definition demoCatalog :: "SORItem list" where
  "demoCatalog = [excavationA, excavationB, excavationC, giPipe]"

definition editedPipe :: RateData where
  "editedPipe = \<lparr> new_name = utf16 ''GI Pipe 32mm'', new_unit = utf16 ''m'', new_rate = Fin 150,
       new_scopeOfWork = utf16 ''Supply and fixing of GI pipe, 32mm'', new_source = utf16 ''PWD 2024'' \<rparr>"

definition editingPipe :: app where
  "editingPipe = \<lparr> view = Database, sorData = demoCatalog, isFormOpen = True,
       editingItem = Some giPipe, searchQuery = [] \<rparr>"

text \<open>
  A sample of \<^verbatim>\<open>toLowerCase\<close>, which agrees with it on the strings of ASCII and Latin-1
  characters: the letters \<open>A\<close> to \<open>Z\<close> and U+00C0 to U+00DE, but for the multiplication
  sign U+00D7, move up by 32.
\<close>

definition latinLower :: "jsstring \<Rightarrow> jsstring" where
  "latinLower s =
     map (\<lambda>c. if (65 \<le> c \<and> c \<le> 90) \<or> (192 \<le> c \<and> c \<le> 222 \<and> c \<noteq> 215) then c + 32 else c) s"

text \<open>Two records named \<open>CAFE\<close> and \<open>cafe\<close> with an acute accent on the last letter (U+00C9, U+00E9).\<close>

definition cafeUpper :: SORItem where
  "cafeUpper = \<lparr> sor_id = utf16 ''E'', sor_name = utf16 ''CAF'' @ [0xC9], sor_unit = utf16 ''cup'',
       rate = Fin 10, scopeOfWork = utf16 ''Coffee'', source = [], timestamp = Fin 1700000000004 \<rparr>"

definition cafeLower :: SORItem where
  "cafeLower = \<lparr> sor_id = utf16 ''F'', sor_name = utf16 ''caf'' @ [0xE9], sor_unit = utf16 ''cup'',
       rate = Fin 20, scopeOfWork = utf16 ''Coffee'', source = [], timestamp = Fin 1700000000005 \<rparr>"

text \<open>
  A sample service. It answers the extraction request with a text that the sample parser
  reads as four extracted lines, and the matching requests by the requested name: record
  \<open>B\<close> for \<open>Excavation\<close>, record \<open>D\<close> for \<open>Pipe 25mm\<close>, a rejected call for \<open>Rebar\<close>, and
  a response without text otherwise. The sample parser stands for \<^verbatim>\<open>JSON.parse\<close> on
  the texts of the sample responses and on \<^verbatim>\<open>{}\<close> and \<^verbatim>\<open>[]\<close>; every other text is a
  syntax error. The text \<open>wrapped lines\<close> stands for \<^verbatim>\<open>{"items":[]}\<close> and the text
  \<open>null line\<close> for \<^verbatim>\<open>[null]\<close>.
\<close>

definition tenderLines :: jsval where
  "tenderLines = JArr
     [JObj [(utf16 ''name'', JStr (utf16 ''Excavation'')), (utf16 ''quantity'', JNum (Fin 50)),
            (utf16 ''requestedScope'', JStr (utf16 ''Excavation in ordinary soil''))],
      JObj [(utf16 ''name'', JStr (utf16 ''Pipe 25mm'')), (utf16 ''quantity'', JNum (Fin 50)),
            (utf16 ''requestedScope'', JStr (utf16 ''GI pipe'')),
            (utf16 ''estimatedRate'', JNum (Fin 110))],
      JObj [(utf16 ''name'', JStr (utf16 ''Rebar'')), (utf16 ''quantity'', JNum (Fin (- 5))),
            (utf16 ''requestedScope'', JStr (utf16 ''Steel reinforcement''))],
      JObj [(utf16 ''name'', JStr (utf16 ''Site clearance'')),
            (utf16 ''requestedScope'', JStr (utf16 ''Clearing''))]]"

definition demoService :: "request list \<Rightarrow> request \<Rightarrow> reply" where
  "demoService lg req =
     (case req of
        ExtractItems t \<Rightarrow> Response (Some (utf16 ''tender lines''))
      | BestMatch n s db \<Rightarrow>
          if n = JStr (utf16 ''Excavation'') then Response (Some (utf16 ''matched B''))
          else if n = JStr (utf16 ''Pipe 25mm'') then Response (Some (utf16 ''matched D''))
          else if n = JStr (utf16 ''Rebar'') then Rejected
          else Response None)"

definition demoParse :: "jsstring \<Rightarrow> jsval option" where
  "demoParse t =
     (if t = utf16 ''tender lines'' then Some tenderLines
      else if t = utf16 ''matched B'' then Some (JObj [(utf16 ''matchedId'', JStr (utf16 ''B''))])
      else if t = utf16 ''matched D'' then Some (JObj [(utf16 ''matchedId'', JStr (utf16 ''D''))])
      else if t = utf16 ''wrapped lines'' then Some (JObj [(utf16 ''items'', JArr [])])
      else if t = utf16 ''null line'' then Some (JArr [JNull])
      else if t = utf16 ''{}'' then Some (JObj [])
      else if t = utf16 ''[]'' then Some (JArr [])
      else None)"

definition demoUUID :: "nat \<Rightarrow> jsstring" where
  "demoUUID n = replicate (Suc n) 117"

definition demoEnv :: env where
  "demoEnv = \<lparr> generateContent = demoService, JSON_parse = demoParse,
                toLowerCase = latinLower, randomUUID = demoUUID \<rparr>"





definition pasted :: processor where
  "pasted = \<lparr> inputText = utf16 ''Excavation 50 m3; Pipe 25mm 50 m; Rebar; Site clearance'',
              items = [], processing = False \<rparr>"

text \<open>An input of a space, a line feed, a tab, a no-break space, a line separator and U+FEFF.\<close>

definition blank :: processor where
  "blank = \<lparr> inputText = [0x20, 0xA, 0x9, 0xA0, 0x2028, 0xFEFF], items = [], processing = False \<rparr>"

text \<open>The calls of a run on the sample input with the sample catalog, and its outcome up to the two statuses on which the builds differ.\<close>

definition demoLog :: "request list" where
  "demoLog =
     [ExtractItems (utf16 ''Excavation 50 m3; Pipe 25mm 50 m; Rebar; Site clearance''),
      BestMatch (JStr (utf16 ''Excavation'')) (JStr (utf16 ''Excavation in ordinary soil''))
        [(utf16 ''A'', utf16 ''Excavation''), (utf16 ''B'', utf16 ''Excavation''), (utf16 ''C'', utf16 ''EXCAVATION''),
         (utf16 ''D'', utf16 ''GI Pipe 25mm'')],
      BestMatch (JStr (utf16 ''Pipe 25mm'')) (JStr (utf16 ''GI pipe''))
        [(utf16 ''A'', utf16 ''Excavation''), (utf16 ''B'', utf16 ''Excavation''), (utf16 ''C'', utf16 ''EXCAVATION''),
         (utf16 ''D'', utf16 ''GI Pipe 25mm'')],
      BestMatch (JStr (utf16 ''Rebar'')) (JStr (utf16 ''Steel reinforcement''))
        [(utf16 ''A'', utf16 ''Excavation''), (utf16 ''B'', utf16 ''Excavation''), (utf16 ''C'', utf16 ''EXCAVATION''),
         (utf16 ''D'', utf16 ''GI Pipe 25mm'')],
      BestMatch (JStr (utf16 ''Site clearance'')) (JStr (utf16 ''Clearing''))
        [(utf16 ''A'', utf16 ''Excavation''), (utf16 ''B'', utf16 ''Excavation''), (utf16 ''C'', utf16 ''EXCAVATION''),
         (utf16 ''D'', utf16 ''GI Pipe 25mm'')]]"

definition quotedLines :: "SORItem option \<Rightarrow> status \<Rightarrow> SORItem option \<Rightarrow> status \<Rightarrow> TenderItem list" where
  "quotedLines m1 s1 m2 s2 =
     [\<lparr> item_id = utf16 ''u'', item_name = JStr (utf16 ''Excavation''), quantity = JNum (Fin 50),
        requestedScope = JStr (utf16 ''Excavation in ordinary soil''), estimatedRate = JUndefined,
        matchedRate = m1, status = s1 \<rparr>,
      \<lparr> item_id = utf16 ''uu'', item_name = JStr (utf16 ''Pipe 25mm''), quantity = JNum (Fin 50),
        requestedScope = JStr (utf16 ''GI pipe''), estimatedRate = JNum (Fin 110),
        matchedRate = m2, status = s2 \<rparr>,
      \<lparr> item_id = utf16 ''uuu'', item_name = JStr (utf16 ''Rebar''), quantity = JNum (Fin (- 5)),
        requestedScope = JStr (utf16 ''Steel reinforcement''), estimatedRate = JUndefined,
        matchedRate = None, status = NoMatch \<rparr>,
      \<lparr> item_id = utf16 ''uuuu'', item_name = JStr (utf16 ''Site clearance''), quantity = JNum (Fin 1),
        requestedScope = JStr (utf16 ''Clearing''), estimatedRate = JUndefined,
        matchedRate = None, status = NoMatch \<rparr>]"

definition quoted :: "status \<Rightarrow> status \<Rightarrow> processor" where
  "quoted s1 s2 =
     \<lparr> inputText = utf16 ''Excavation 50 m3; Pipe 25mm 50 m; Rebar; Site clearance'',
       items = quotedLines (Some excavationB) s1 (Some giPipe) s2, processing = False \<rparr>"

definition unpriced :: processor where
  "unpriced =
     \<lparr> inputText = utf16 ''Excavation 50 m3; Pipe 25mm 50 m; Rebar; Site clearance'',
       items = quotedLines None NoMatch None NoMatch, processing = False \<rparr>"

text \<open>A line of quantity one priced at a given rate, and a conversion that is never called on it.\<close>

definition pricedAt :: "jsnum \<Rightarrow> TenderItem" where
  "pricedAt r =
     \<lparr> item_id = utf16 ''line'', item_name = JStr (utf16 ''Sand''), quantity = JNum (Fin 1),
       requestedScope = JStr (utf16 ''River sand''), estimatedRate = JUndefined,
       matchedRate = Some \<lparr> sor_id = utf16 ''S'', sor_name = utf16 ''Sand'', sor_unit = utf16 ''kg'', rate = r,
                             scopeOfWork = utf16 ''River sand'', source = [], timestamp = Fin 0 \<rparr>,
       status = Matched \<rparr>"

definition noCoercion :: "jsval \<Rightarrow> jsnum" where
  "noCoercion v = NaN"

text \<open>The application as it starts.\<close>

definition initialApp :: app where
  "initialApp = \<lparr> view = Database, sorData = [], isFormOpen = False, editingItem = None,
                   searchQuery = [] \<rparr>"

section \<open>Literals\<close>

lemma utf16_Nil [simp]: "utf16 [] = []"
  by (simp add: utf16_def)

lemma utf16_Cons [simp]: "utf16 (c # cs) = of_char c # utf16 cs"
  by (simp add: utf16_def)

section \<open>The order of numbers and \<^verbatim>\<open>Math.min\<close>\<close>

lemma numLe_refl: "a \<noteq> NaN \<Longrightarrow> numLe a a"
  by (simp add: numLe_def numEq_def)

lemma numLe_NaN [simp]: "\<not> numLe NaN b" "\<not> numLe a NaN"
  by (cases a; simp add: numLe_def numEq_def)+

lemma numLe_trans: "numLe a b \<Longrightarrow> numLe b c \<Longrightarrow> numLe a c"
  by (cases a; cases b; cases c; auto simp add: numLe_def numEq_def)

lemma numLe_antisym: "numLe a b \<Longrightarrow> numLe b a \<Longrightarrow> a = b"
  by (cases a; cases b; auto simp add: numLe_def numEq_def)

lemma numLe_total: "a \<noteq> NaN \<Longrightarrow> b \<noteq> NaN \<Longrightarrow> numLe a b \<or> numLe b a"
  by (cases a; cases b; auto simp add: numLe_def numEq_def)

lemma numLt_iff: "numLt a b \<longleftrightarrow> numLe a b \<and> a \<noteq> b"
  by (cases a; cases b; auto simp add: numLe_def numEq_def)

lemma numLe_Fin [simp]: "numLe (Fin a) (Fin b) \<longleftrightarrow> a \<le> b"
  by (auto simp: numLe_def numEq_def)

lemma foldl_min2_NaN: "foldl min2 a xs = NaN \<longleftrightarrow> a = NaN \<or> NaN \<in> set xs"
  by (induction xs arbitrary: a) (auto simp: min2_def)

text \<open>Without \<^verbatim>\<open>NaN\<close>, the fold of \<^verbatim>\<open>Math.min\<close> ends on a least element.\<close>

lemma foldl_min2_least:
  "a \<noteq> NaN \<Longrightarrow> NaN \<notin> set xs \<Longrightarrow>
     (foldl min2 a xs = a \<or> foldl min2 a xs \<in> set xs)
     \<and> numLe (foldl min2 a xs) a \<and> (\<forall>x\<in>set xs. numLe (foldl min2 a xs) x)"
proof (induction xs arbitrary: a)
  case Nil
  then show ?case by (simp add: numLe_refl)
next
  case (Cons x xs)
  have x: "x \<noteq> NaN" and xs: "NaN \<notin> set xs" using Cons.prems by auto
  show ?case
  proof (cases "numLt x a")
    case True
    then have m: "min2 a x = x" using Cons.prems x by (simp add: min2_def)
    have xa: "numLe x a" using True by (simp add: numLe_def)
    from Cons.IH[OF x xs] m xa show ?thesis
      by (auto intro: numLe_trans)
  next
    case False
    then have m: "min2 a x = a" using Cons.prems x by (simp add: min2_def)
    have ax: "numLe a x" using False numLe_total[OF Cons.prems(1) x] by (auto simp: numLt_iff)
    from Cons.IH[OF Cons.prems(1) xs] m ax show ?thesis
      by (auto intro: numLe_trans)
  qed
qed

lemma Math_min_eq_iff:
  assumes "x \<in> set xs"
  shows "numEq x (Math_min xs) \<longleftrightarrow> (\<forall>y\<in>set xs. numLe x y)"
proof
  assume "numEq x (Math_min xs)"
  then have n: "Math_min xs \<noteq> NaN" and e: "x = Math_min xs" by (auto simp: numEq_def)
  from n have "NaN \<notin> set xs" by (simp add: Math_min_def foldl_min2_NaN)
  from foldl_min2_least[OF _ this, of PosInf] e show "\<forall>y\<in>set xs. numLe x y"
    by (simp add: Math_min_def)
next
  assume le: "\<forall>y\<in>set xs. numLe x y"
  have nn: "NaN \<notin> set xs"
  proof
    assume "NaN \<in> set xs"
    with le have "numLe x NaN" by blast
    then show False by simp
  qed
  have xn: "x \<noteq> NaN" using nn assms by auto
  let ?m = "foldl min2 PosInf xs"
  from foldl_min2_least[OF _ nn, of PosInf]
  have a: "?m = PosInf \<or> ?m \<in> set xs" and b: "\<forall>y\<in>set xs. numLe ?m y" by simp_all
  have "numLe ?m x" using b assms by simp
  moreover have "numLe x ?m"
  proof (cases "?m \<in> set xs")
    case True
    then show ?thesis using le by auto
  next
    case False
    then have "?m = PosInf" using a by simp
    then show ?thesis using xn by (cases x) (simp_all add: numLe_def numEq_def)
  qed
  ultimately have "x = ?m" by (rule numLe_antisym[rotated])
  then show "numEq x (Math_min xs)" using xn by (simp add: numEq_def Math_min_def)
qed

section \<open>Rounding to binary64\<close>

lemma isInt_iff: "isInt q \<longleftrightarrow> (\<exists>z. q = of_int z)"
  by (metis isInt_def floor_of_int)

lemma isInt_0 [simp]: "isInt 0"
  by (simp add: isInt_def)

lemma isInt_add: "isInt a \<Longrightarrow> isInt b \<Longrightarrow> isInt (a + b)"
  by (metis isInt_iff of_int_add)

lemma isInt_mult: "isInt a \<Longrightarrow> isInt b \<Longrightarrow> isInt (a * b)"
  by (metis isInt_iff of_int_mult)

lemma roundTiesToEven_int [simp]: "roundTiesToEven (of_int z) = z"
  by (simp add: roundTiesToEven_def)

lemma round64_0 [simp]: "round64 0 = Fin 0"
  by (simp add: round64_def)

lemma quotient_of_pos:
  assumes "0 < x" and "quotient_of x = (p, q)"
  shows "0 < p" and "0 < q" and "x = of_int p / of_int q"
proof -
  show q: "0 < q" using assms(2) by (rule quotient_of_denom_pos)
  show x: "x = of_int p / of_int q" using assms(2) by (rule quotient_of_div)
  show "0 < p" using assms(1) q x by (simp add: zero_less_divide_iff)
qed

lemma bitlen_powi_bounds:
  assumes "0 < p"
  shows "(2::rat) powi (bitlen p - 1) \<le> of_int p" and "of_int p < (2::rat) powi (bitlen p)"
proof -
  from bitlen_bounds[OF assms] have a: "2 ^ nat (bitlen p - 1) \<le> p" and b: "p < 2 ^ nat (bitlen p)"
    by simp_all
  have ge1: "1 \<le> bitlen p" using assms by (simp add: bitlen_alt_def)
  have "(of_int (2 ^ nat (bitlen p - 1)) :: rat) \<le> of_int p" using a by (simp only: of_int_le_iff)
  then show "(2::rat) powi (bitlen p - 1) \<le> of_int p" using ge1 by (simp add: power_int_def)
  have "(of_int p :: rat) < of_int (2 ^ nat (bitlen p))" using b by (simp only: of_int_less_iff)
  then show "of_int p < (2::rat) powi (bitlen p)" using ge1 by (simp add: power_int_def)
qed

text \<open>\<open>ilog2\<close> is the binary exponent.\<close>

lemma ilog2_bounds:
  assumes "x \<noteq> 0"
  shows "2 powi (ilog2 x) \<le> \<bar>x\<bar>" and "\<bar>x\<bar> < 2 powi (ilog2 x + 1)"
proof -
  obtain p q where pq: "quotient_of \<bar>x\<bar> = (p, q)" by (cases "quotient_of \<bar>x\<bar>")
  have pos: "0 < \<bar>x\<bar>" using assms by simp
  note f = quotient_of_pos[OF pos pq]
  let ?k = "bitlen p - bitlen q"
  have qr: "(0::rat) < of_int q" using f(2) by simp
  have up: "\<bar>x\<bar> < 2 powi (?k + 1)"
  proof -
    have "of_int p < (2::rat) powi (bitlen p)" by (rule bitlen_powi_bounds(2)[OF f(1)])
    also have "\<dots> = 2 powi (?k + 1) * 2 powi (bitlen q - 1)"
      by (simp flip: power_int_add)
    also have "\<dots> \<le> 2 powi (?k + 1) * of_int q"
      using bitlen_powi_bounds(1)[OF f(2)] by (intro mult_left_mono) simp_all
    finally show ?thesis using qr f(3) by (simp add: pos_divide_less_eq)
  qed
  have lo: "2 powi (?k - 1) \<le> \<bar>x\<bar>"
  proof -
    have "2 powi (?k - 1) * of_int q \<le> 2 powi (?k - 1) * (2::rat) powi (bitlen q)"
      using bitlen_powi_bounds(2)[OF f(2)] by (intro mult_left_mono) simp_all
    also have "\<dots> = 2 powi (bitlen p - 1)" by (simp flip: power_int_add)
    also have "\<dots> \<le> of_int p" by (rule bitlen_powi_bounds(1)[OF f(1)])
    finally show ?thesis using qr f(3) by (simp add: pos_le_divide_eq)
  qed
  have il: "ilog2 x = (if 2 powi ?k \<le> \<bar>x\<bar> then ?k else ?k - 1)"
    using pq by (simp add: ilog2_def)
  show "2 powi (ilog2 x) \<le> \<bar>x\<bar>" using il lo by auto
  show "\<bar>x\<bar> < 2 powi (ilog2 x + 1)" using il up by (auto simp: not_le)
qed

lemma ilog2_unique:
  assumes "2 powi k \<le> \<bar>x\<bar>" and "\<bar>x\<bar> < 2 powi (k + 1)"
  shows "ilog2 x = k"
proof -
  have nz: "x \<noteq> 0"
  proof
    assume "x = 0"
    with assms(1) have "(2::rat) powi k \<le> 0" by simp
    moreover have "(0::rat) < 2 powi k" by (rule zero_less_power_int) simp
    ultimately show False by simp
  qed
  note b = ilog2_bounds[OF nz]
  have "\<not> k + 1 \<le> ilog2 x"
  proof
    assume "k + 1 \<le> ilog2 x"
    then have "(2::rat) powi (k + 1) \<le> 2 powi (ilog2 x)" by (rule power_int_increasing) simp
    with b(1) assms(2) show False by linarith
  qed
  moreover have "\<not> ilog2 x + 1 \<le> k"
  proof
    assume "ilog2 x + 1 \<le> k"
    then have "(2::rat) powi (ilog2 x + 1) \<le> 2 powi k" by (rule power_int_increasing) simp
    with b(2) assms(1) show False by linarith
  qed
  ultimately show ?thesis by linarith
qed

lemma ilog2_small:
  assumes "x \<noteq> 0" and "\<bar>x\<bar> < 2 ^ 53"
  shows "ilog2 x \<le> 52"
proof -
  have "(2::rat) powi (ilog2 x) < 2 powi 53"
    using ilog2_bounds(1)[OF assms(1)] assms(2) by simp
  then have "ilog2 x < 53" by (rule power_int_le_imp_less_exp[rotated]) simp_all
  then show ?thesis by simp
qed

text \<open>A whole number below \<open>2 ^ 53\<close> in magnitude is a binary64 value: rounding keeps it.\<close>

lemma round64_int:
  assumes "isInt x" and "\<bar>x\<bar> < 2 ^ 53"
  shows "round64 x = Fin x"
proof (cases "x = 0")
  case True
  then show ?thesis by simp
next
  case False
  obtain z where z: "x = of_int z" using assms(1) by (auto simp: isInt_iff)
  define k where "k = max (ilog2 x) (- 1022) - 52"
  have k: "k \<le> 0" using ilog2_small[OF False assms(2)] by (simp add: k_def)
  define n where "n = nat (- k)"
  have u: "(2::rat) powi k = 1 / 2 ^ n"
    using k by (simp add: n_def power_int_def inverse_eq_divide power_one_over)
  have "x / 2 powi k = of_int (z * 2 ^ n)" by (simp add: u z)
  then have r: "roundTiesToEven (x / 2 powi k) = z * 2 ^ n" by (simp only: roundTiesToEven_int)
  have again: "of_int (roundTiesToEven (x / 2 powi k)) * 2 powi k = x"
    unfolding r by (simp add: u z)
  have small: "\<not> 2 ^ 1024 \<le> \<bar>x\<bar>"
  proof -
    have "(2::rat) ^ 53 \<le> 2 ^ 1024" by (rule power_increasing) simp_all
    with assms(2) show ?thesis by linarith
  qed
  show ?thesis
    using False again small unfolding round64_def Let_def k_def by simp
qed

text \<open>Rounding a value whose binary exponent is known.\<close>

lemma round64_at:
  assumes "2 powi k \<le> \<bar>x\<bar>" and "\<bar>x\<bar> < 2 powi (k + 1)"
  shows "round64 x =
     (let u = 2 powi (max k (- 1022) - 52);
          r = of_int (roundTiesToEven (x / u)) * u
      in if 2 ^ 1024 \<le> \<bar>r\<bar> then (if 0 < r then PosInf else NegInf) else Fin r)"
proof -
  have "x \<noteq> 0"
  proof
    assume "x = 0"
    with assms(1) have "(2::rat) powi k \<le> 0" by simp
    moreover have "(0::rat) < 2 powi k" by (rule zero_less_power_int) simp
    ultimately show False by simp
  qed
  then show ?thesis by (simp add: round64_def ilog2_unique[OF assms])
qed

lemma floor_numeral_div: "\<lfloor>numeral a / numeral b :: rat\<rfloor> = numeral a div numeral b"
  by (metis floor_divide_of_int_eq of_int_numeral)

lemmas eval64 = power_int_def roundTiesToEven_def Let_def power_one_over inverse_eq_divide
  floor_numeral_div

text \<open>The number literals \<^verbatim>\<open>0.1\<close>, \<^verbatim>\<open>0.2\<close> and \<^verbatim>\<open>0.3\<close>.\<close>

lemma tenth: "round64 (1 / 10) = Fin (3602879701896397 / 36028797018963968)"
  by (subst round64_at[where k = "- 4"]) (simp_all add: eval64)

lemma fifth: "round64 (1 / 5) = Fin (3602879701896397 / 18014398509481984)"
  by (subst round64_at[where k = "- 3"]) (simp_all add: eval64)

lemma three_tenths: "round64 (3 / 10) = Fin (5404319552844595 / 18014398509481984)"
  by (subst round64_at[where k = "- 2"]) (simp_all add: eval64)

lemma keep_tenth:
  "round64 (3602879701896397 / 36028797018963968) = Fin (3602879701896397 / 36028797018963968)"
  by (subst round64_at[where k = "- 4"]) (simp_all add: eval64)

lemma keep_fifth:
  "round64 (3602879701896397 / 18014398509481984) = Fin (3602879701896397 / 18014398509481984)"
  by (subst round64_at[where k = "- 3"]) (simp_all add: eval64)

lemma keep_three_tenths:
  "round64 (5404319552844595 / 18014398509481984) = Fin (5404319552844595 / 18014398509481984)"
  by (subst round64_at[where k = "- 2"]) (simp_all add: eval64)

text \<open>The partial sums of \<^verbatim>\<open>0 + 0.1 + 0.2 + 0.3\<close> and of \<^verbatim>\<open>0 + 0.3 + 0.2 + 0.1\<close>.\<close>

lemma sum_up_1:
  "round64 (0 + 3602879701896397 / 36028797018963968) = Fin (3602879701896397 / 36028797018963968)"
  by (simp add: keep_tenth)

lemma sum_up_2:
  "round64 (3602879701896397 / 36028797018963968 + 3602879701896397 / 18014398509481984)
     = Fin (5404319552844596 / 18014398509481984)"
  by (subst round64_at[where k = "- 2"]) (simp_all add: eval64)

lemma sum_up_3:
  "round64 (5404319552844596 / 18014398509481984 + 5404319552844595 / 18014398509481984)
     = Fin (1351079888211149 / 2251799813685248)"
  by (subst round64_at[where k = "- 1"]) (simp_all add: eval64)

lemma sum_down_1:
  "round64 (0 + 5404319552844595 / 18014398509481984) = Fin (5404319552844595 / 18014398509481984)"
  by (simp add: keep_three_tenths)

lemma sum_down_2:
  "round64 (5404319552844595 / 18014398509481984 + 3602879701896397 / 18014398509481984) = Fin (1 / 2)"
  by (subst round64_at[where k = "- 1"]) (simp_all add: eval64)

lemma sum_down_3:
  "round64 (1 / 2 + 3602879701896397 / 36028797018963968) = Fin (5404319552844595 / 9007199254740992)"
  by (subst round64_at[where k = "- 1"]) (simp_all add: eval64)

section \<open>The rate catalog\<close>

text \<open>
  Claim C6. Two names are the same up to letter case when \<^verbatim>\<open>toLowerCase\<close> sends them
  to the same string; the statement holds whatever function \<open>lower\<close> that is, so for
  \<^verbatim>\<open>toLowerCase\<close> on every string of UTF-16 code units. For a record of the catalog,
  \<^verbatim>\<open>isLowest\<close> holds exactly when at least two records of the catalog have its name up
  to letter case and its rate is the least rate among those records (it is below the rate
  of each of them). Hence every record of that name with the same rate is flagged with
  it: all the records tied at the minimum are flagged, and no other.
\<close>

theorem isLowest_iff_minimum:
  assumes "item \<in> set allRates"
  shows "(isLowest lower allRates item \<longleftrightarrow>
            2 \<le> length (filter (\<lambda>r. lower (sor_name r) = lower (sor_name item)) allRates)
            \<and> (\<forall>r\<in>set allRates. lower (sor_name r) = lower (sor_name item)
                  \<longrightarrow> numLe (rate item) (rate r)))
         \<and> (\<forall>other\<in>set allRates.
               lower (sor_name other) = lower (sor_name item) \<and> rate other = rate item
                 \<longrightarrow> isLowest lower allRates other = isLowest lower allRates item)"
proof -
  have group: "sameItems lower allRates r = sameItems lower allRates item"
    if "lower (sor_name r) = lower (sor_name item)" for r
    using that by (simp add: sameItems_def)
  have char: "isLowest lower allRates r \<longleftrightarrow>
      2 \<le> length (sameItems lower allRates r) \<and> (\<forall>y\<in>set (sameItems lower allRates r). numLe (rate r) (rate y))"
    if "r \<in> set allRates" for r
  proof -
    have "rate r \<in> set (map rate (sameItems lower allRates r))"
      using that by (simp add: sameItems_def)
    from Math_min_eq_iff[OF this] show ?thesis
      unfolding isLowest_def by auto
  qed
  have one: "isLowest lower allRates item \<longleftrightarrow>
            2 \<le> length (filter (\<lambda>r. lower (sor_name r) = lower (sor_name item)) allRates)
            \<and> (\<forall>r\<in>set allRates. lower (sor_name r) = lower (sor_name item)
                  \<longrightarrow> numLe (rate item) (rate r))"
    using char[OF assms] by (auto simp: sameItems_def)
  have two: "isLowest lower allRates other = isLowest lower allRates item"
    if "other \<in> set allRates" "lower (sor_name other) = lower (sor_name item)"
       "rate other = rate item" for other
    using char[OF that(1)] char[OF assms] group[OF that(2)] that(3) by simp
  from one two show ?thesis by blast
qed

theorem isLowest_iff_minimum_witness:
  "excavationB \<in> set demoCatalog
   \<and> isLowest latinLower demoCatalog excavationB \<and> isLowest latinLower demoCatalog excavationC
   \<and> \<not> isLowest latinLower demoCatalog excavationA
   \<and> cafeUpper \<in> set [cafeUpper, cafeLower]
   \<and> isLowest latinLower [cafeUpper, cafeLower] cafeUpper
   \<and> \<not> isLowest latinLower [cafeUpper, cafeLower] cafeLower"
proof -
  have b: "excavationB \<in> set demoCatalog" and a: "excavationA \<in> set demoCatalog"
    by (simp_all add: demoCatalog_def)
  have u: "cafeUpper \<in> set [cafeUpper, cafeLower]" and l: "cafeLower \<in> set [cafeUpper, cafeLower]"
    by simp_all
  have lc: "latinLower (utf16 ''Excavation'') = utf16 ''excavation''"
    "latinLower (utf16 ''EXCAVATION'') = utf16 ''excavation''"
    "latinLower (utf16 ''GI Pipe 25mm'') = utf16 ''gi pipe 25mm''"
    "latinLower (utf16 ''CAF'' @ [0xC9]) = utf16 ''caf'' @ [0xE9]"
    "latinLower (utf16 ''caf'' @ [0xE9]) = utf16 ''caf'' @ [0xE9]"
    by (simp_all add: latinLower_def)
  have ne: "utf16 ''excavation'' \<noteq> utf16 ''gi pipe 25mm''" by simp
  have "isLowest latinLower demoCatalog excavationB"
    using isLowest_iff_minimum [OF b, of latinLower] lc ne
    by (simp add: demoCatalog_def excavationA_def excavationB_def excavationC_def giPipe_def)
  moreover have "isLowest latinLower demoCatalog excavationC"
    using isLowest_iff_minimum [OF b, of latinLower] lc ne \<open>isLowest latinLower demoCatalog excavationB\<close>
    by (simp add: demoCatalog_def excavationA_def excavationB_def excavationC_def giPipe_def)
  moreover have "\<not> isLowest latinLower demoCatalog excavationA"
    using isLowest_iff_minimum [OF a, of latinLower] lc ne
    by (simp add: demoCatalog_def excavationA_def excavationB_def excavationC_def giPipe_def)
  moreover have "isLowest latinLower [cafeUpper, cafeLower] cafeUpper"
    using isLowest_iff_minimum [OF u, of latinLower] lc
    by (simp add: cafeUpper_def cafeLower_def)
  moreover have "\<not> isLowest latinLower [cafeUpper, cafeLower] cafeLower"
    using isLowest_iff_minimum [OF l, of latinLower] lc
    by (simp add: cafeUpper_def cafeLower_def)
  ultimately show ?thesis using b by simp
qed

text \<open>
  Claim C7. When a record is being edited, \<^verbatim>\<open>handleAddOrUpdateRate\<close> keeps the length
  and the order of the catalog; at each position, a record with the edited id takes the
  submitted name, unit, rate, scope and source and keeps its id and its timestamp, and
  a record with another id is unchanged.
\<close>

theorem update_replaces_fields_keeps_identity:
  assumes "editingItem st = Some ed"
  shows "length (sorData (handleAddOrUpdateRate uuid now item st)) = length (sorData st)
         \<and> (\<forall>i < length (sorData st).
               sorData (handleAddOrUpdateRate uuid now item st) ! i =
                 (if sor_id (sorData st ! i) = sor_id ed
                  then \<lparr> sor_id = sor_id (sorData st ! i), sor_name = new_name item,
                         sor_unit = new_unit item, rate = new_rate item,
                         scopeOfWork = new_scopeOfWork item, source = new_source item,
                         timestamp = timestamp (sorData st ! i) \<rparr>
                  else sorData st ! i))"
  using assms by (simp add: handleAddOrUpdateRate_def withIdentity_def)

theorem update_replaces_fields_keeps_identity_witness:
  "editingItem editingPipe = Some giPipe
   \<and> sorData (handleAddOrUpdateRate (utf16 ''fresh'') (Fin 1700000000999) editedPipe editingPipe) =
       [excavationA, excavationB, excavationC,
        \<lparr> sor_id = utf16 ''D'', sor_name = utf16 ''GI Pipe 32mm'', sor_unit = utf16 ''m'', rate = Fin 150,
          scopeOfWork = utf16 ''Supply and fixing of GI pipe, 32mm'', source = utf16 ''PWD 2024'',
          timestamp = Fin 1700000000003 \<rparr>]"
proof -
  have h: "editingItem editingPipe = Some giPipe" by (simp add: editingPipe_def)
  have len: "length (sorData editingPipe) = 4" by (simp add: editingPipe_def demoCatalog_def)
  note t = update_replaces_fields_keeps_identity [OF h, of "utf16 ''fresh''" "Fin 1700000000999" editedPipe]
  let ?new = "sorData (handleAddOrUpdateRate (utf16 ''fresh'') (Fin 1700000000999) editedPipe editingPipe)"
  have l: "length ?new = 4" using t len by simp
  have "?new ! 0 = excavationA" "?new ! 1 = excavationB" "?new ! 2 = excavationC"
       "?new ! 3 = \<lparr> sor_id = utf16 ''D'', sor_name = utf16 ''GI Pipe 32mm'', sor_unit = utf16 ''m'', rate = Fin 150,
          scopeOfWork = utf16 ''Supply and fixing of GI pipe, 32mm'', source = utf16 ''PWD 2024'',
          timestamp = Fin 1700000000003 \<rparr>"
    using t len
    by (simp_all add: editingPipe_def demoCatalog_def excavationA_def excavationB_def
          excavationC_def giPipe_def editedPipe_def)
  then have "?new = [?new ! 0, ?new ! 1, ?new ! 2, ?new ! 3] \<Longrightarrow> ?thesis" using h by simp
  moreover have "?new = [?new ! 0, ?new ! 1, ?new ! 2, ?new ! 3]"
    using l by (intro nth_equalityI) (auto simp: less_Suc_eq numeral_eq_Suc)
  ultimately show ?thesis by blast
qed

text \<open>
  Claim C8. On a stored text that is not empty and does not parse, the load effect of
  \<^verbatim>\<open>index.tsx\<close> and of the second single-file build ends in the \<^verbatim>\<open>SyntaxError\<close> of
  \<^verbatim>\<open>JSON.parse\<close>, where the effect of \<^verbatim>\<open>App.tsx\<close> catches it and sets the empty
  catalog.
\<close>

theorem inline_load_throws_on_unparseable:
  assumes "parse s = None" and "s \<noteq> []"
  shows "loadEffect_inline parse (Some s) st = Threw SyntaxError
         \<and> loadEffect_App parse (Some s) st = Loaded (st\<lparr>sorData := []\<rparr>)"
  using assms by (simp add: loadEffect_inline_def loadEffect_App_def)

theorem inline_load_throws_on_unparseable_witness:
  "demoParse (utf16 ''[{'') = None
   \<and> loadEffect_inline demoParse (Some (utf16 ''[{'')) initialApp = Threw SyntaxError
   \<and> loadEffect_App demoParse (Some (utf16 ''[{'')) initialApp = Loaded initialApp"
proof -
  have h: "demoParse (utf16 ''[{'') = None" by (simp add: demoParse_def)
  have n: "utf16 ''[{'' \<noteq> []" by simp
  have i: "initialApp\<lparr>sorData := []\<rparr> = initialApp" by (simp add: initialApp_def)
  show ?thesis
    using inline_load_throws_on_unparseable [of demoParse "utf16 ''[{''" initialApp, OF h n] h i
    by simp
qed

text \<open>
  The effect of \<^verbatim>\<open>App.tsx\<close> itself never throws. A stored text that parses to a value
  that is not a catalog is passed on to \<^verbatim>\<open>setSorData\<close> by it, as by the other two.
\<close>

lemma loadEffect_App_never_throws: "loadEffect_App parse saved st \<noteq> Threw err"
  by (simp add: loadEffect_App_def split: option.splits)

lemma loadEffect_untyped:
  assumes "parse s = Some v" and "s \<noteq> []" and "asCatalog v = None"
  shows "loadEffect_App parse (Some s) st = Untyped v"
    and "loadEffect_inline parse (Some s) st = Untyped v"
  using assms by (simp_all add: loadEffect_App_def loadEffect_inline_def)

section \<open>The tender processor\<close>

subsection \<open>Strings\<close>

lemma dropWhile_all_iff: "(\<forall>x\<in>set (dropWhile P xs). P x) \<longleftrightarrow> (\<forall>x\<in>set xs. P x)"
proof
  assume a: "\<forall>x\<in>set (dropWhile P xs). P x"
  have "dropWhile P xs = []"
  proof (rule ccontr)
    assume n: "dropWhile P xs \<noteq> []"
    then have "\<not> P (hd (dropWhile P xs))" by (rule hd_dropWhile)
    moreover have "hd (dropWhile P xs) \<in> set (dropWhile P xs)" using n by simp
    ultimately show False using a by blast
  qed
  then show "\<forall>x\<in>set xs. P x" by (simp add: dropWhile_eq_Nil_conv)
next
  assume "\<forall>x\<in>set xs. P x"
  then show "\<forall>x\<in>set (dropWhile P xs). P x" by (auto dest: set_dropWhileD)
qed

text \<open>\<^verbatim>\<open>!s.trim()\<close> holds exactly for the texts made of white space only.\<close>

lemma trim_blank_iff: "trim s = [] \<longleftrightarrow> (\<forall>c\<in>set s. isWhite c)"
  by (simp add: trim_def dropWhile_eq_Nil_conv dropWhile_all_iff)

subsection \<open>The service\<close>

lemma findBestMatchingItem_empty: "findBestMatchingItem e n s [] lg = (JNull, lg)"
  by (simp add: findBestMatchingItem_def)

lemma findBestMatchingItem_log:
  "snd (findBestMatchingItem e n s db lg) = (if db = [] then lg else lg @ [BestMatch n s db])"
  by (simp add: findBestMatchingItem_def Let_def split: reply.splits option.splits sum.splits)

lemma parseBulkItems_log: "snd (parseBulkItems e text lg) = lg @ [ExtractItems text]"
  by (simp add: parseBulkItems_def Let_def split: reply.splits option.splits)


lemma findById_Some: "findById sor m = Some d \<Longrightarrow> d \<in> set sor \<and> m = JStr (sor_id d)"
  by (auto simp: findById_def find_Some_iff)

subsection \<open>The loop\<close>

lemma statusOf_Inr:
  "statusOf b lower m n = Inr s \<Longrightarrow> s \<in> {Matched, Review, NoMatch} \<and> (m \<noteq> None \<longleftrightarrow> s \<noteq> NoMatch)"
  by (auto simp: statusOf_def split: option.splits build.splits jsval.splits if_splits)

lemma processOne_Inr:
  assumes "processOne b e sor n p lg = (Inr it, lg')"
  shows "madeFrom b (toLowerCase e) sor p it"
proof -
  obtain m l where f: "findBestMatchingItem e (readProp p ''name'') (readProp p ''requestedScope'')
      (map (\<lambda>d. (sor_id d, sor_name d)) sor) lg = (m, l)"
    by (cases "findBestMatchingItem e (readProp p ''name'') (readProp p ''requestedScope'')
      (map (\<lambda>d. (sor_id d, sor_name d)) sor) lg")
  have mem: "case findById sor m of None \<Rightarrow> True | Some d \<Rightarrow> d \<in> set sor"
    by (auto split: option.splits dest: findById_Some)
  from assms f mem show ?thesis
    by (auto simp: processOne_def madeFrom_def Let_def split: if_splits sum.splits)
qed

lemma processOne_log:
  "snd (processOne b e sor n p lg) = lg \<or> (sor \<noteq> [] \<and> (\<exists>r. snd (processOne b e sor n p lg) = lg @ [r]))"
  using findBestMatchingItem_log[of e "readProp p ''name''" "readProp p ''requestedScope''"
          "map (\<lambda>d. (sor_id d, sor_name d)) sor" lg]
  by (auto simp: processOne_def Let_def split: if_splits prod.splits sum.splits)

text \<open>The results of a loop that ends are the accumulator followed by one item for each value, in order.\<close>

lemma processItems_Inr:
  "processItems b e sor ps acc lg = (Inr res, lg') \<Longrightarrow>
     \<exists>new. res = acc @ new \<and> list_all2 (madeFrom b (toLowerCase e) sor) ps new"
proof (induction ps arbitrary: acc lg)
  case Nil
  then show ?case by simp
next
  case (Cons p ps)
  from Cons.prems obtain it lg1 where
    one: "processOne b e sor (length acc) p lg = (Inr it, lg1)"
    and rest: "processItems b e sor ps (acc @ [it]) lg1 = (Inr res, lg')"
    by (auto split: prod.splits sum.splits)
  from Cons.IH[OF rest] obtain new where
    "res = (acc @ [it]) @ new" "list_all2 (madeFrom b (toLowerCase e) sor) ps new" by blast
  moreover have "madeFrom b (toLowerCase e) sor p it" using one by (rule processOne_Inr)
  ultimately show ?case by (intro exI[of _ "it # new"]) simp
qed

lemma processItems_log_grows: "\<exists>more. snd (processItems b e sor ps acc lg) = lg @ more"
proof (induction ps arbitrary: acc lg)
  case Nil
  then show ?case by simp
next
  case (Cons p ps)
  obtain r l where one: "processOne b e sor (length acc) p lg = (r, l)"
    by (cases "processOne b e sor (length acc) p lg")
  with processOne_log[of b e sor "length acc" p lg] obtain m1 where l: "l = lg @ m1" by auto
  show ?case
  proof (cases r)
    case (Inl err)
    then show ?thesis using one l by simp
  next
    case (Inr it)
    from Cons.IH[of "acc @ [it]" l] obtain m2 where
      "snd (processItems b e sor ps (acc @ [it]) l) = l @ m2" by blast
    then show ?thesis using one Inr l by simp
  qed
qed

lemma processItems_log_empty: "snd (processItems b e [] ps acc lg) = lg"
proof (induction ps arbitrary: acc lg)
  case Nil
  then show ?case by simp
next
  case (Cons p ps)
  have "snd (processOne b e [] (length acc) p lg) = lg"
    using processOne_log[of b e "[]" "length acc" p lg] by simp
  then show ?case using Cons.IH
    by (cases "processOne b e [] (length acc) p lg") (auto split: sum.splits)
qed

text \<open>A run of \<^verbatim>\<open>handleProcess\<close> that gets past the test of the input and ends without an exception.\<close>

lemma handleProcess_Inr:
  assumes "handleProcess b e sor st lg = (Inr st', lg')"
    and "b = Build_v2 \<longrightarrow> trim (inputText st) \<noteq> []"
  shows "\<exists>ps. iterate (fst (parseBulkItems e (inputText st) lg)) = Inr ps
           \<and> list_all2 (madeFrom b (toLowerCase e) sor) ps (items st')
           \<and> st' = st\<lparr>items := items st', processing := False\<rparr>"
proof -
  obtain parsed lg1 where pb: "parseBulkItems e (inputText st) lg = (parsed, lg1)"
    by (cases "parseBulkItems e (inputText st) lg")
  from assms pb obtain ps res where it: "iterate parsed = Inr ps"
    and pi: "processItems b e sor ps [] lg1 = (Inr res, lg')"
    and st': "st' = st\<lparr>items := res, processing := False\<rparr>"
    by (auto simp: handleProcess_def split: if_splits sum.splits prod.splits)
  from processItems_Inr[OF pi] have "list_all2 (madeFrom b (toLowerCase e) sor) ps res" by simp
  with it st' pb show ?thesis by auto
qed

lemma handleProcess_log_empty:
  "snd (handleProcess b e [] st lg) = lg
   \<or> snd (handleProcess b e [] st lg) = lg @ [ExtractItems (inputText st)]"
proof (cases "b = Build_v2 \<and> trim (inputText st) = []")
  case True
  then show ?thesis by (simp add: handleProcess_def)
next
  case False
  obtain parsed where pb: "parseBulkItems e (inputText st) lg = (parsed, lg @ [ExtractItems (inputText st)])"
    using parseBulkItems_log[of e "inputText st" lg] by (metis prod.collapse)
  show ?thesis
  proof (cases "iterate parsed")
    case (Inl err)
    then show ?thesis using False pb by (simp add: handleProcess_def)
  next
    case (Inr ps)
    obtain r l where pi: "processItems b e [] ps [] (lg @ [ExtractItems (inputText st)]) = (r, l)"
      by (cases "processItems b e [] ps [] (lg @ [ExtractItems (inputText st)])")
    with processItems_log_empty[of b e ps "[]" "lg @ [ExtractItems (inputText st)]"]
    have "l = lg @ [ExtractItems (inputText st)]" by simp
    then show ?thesis using False pb Inr pi
      by (cases r) (simp_all add: handleProcess_def)
  qed
qed

lemma list_all2_rightD:
  "list_all2 P xs ys \<Longrightarrow> y \<in> set ys \<Longrightarrow> \<exists>x\<in>set xs. P x y"
  by (induction rule: list_all2_induct) auto

subsection \<open>Sample runs\<close>

lemmas sample_defs = latinLower_def demoEnv_def demoService_def demoParse_def demoUUID_def tenderLines_def
  demoCatalog_def excavationA_def excavationB_def excavationC_def giPipe_def pasted_def
  quoted_def quotedLines_def unpriced_def demoLog_def

lemmas run_defs = handleProcess_def parseBulkItems_def processOne_def findBestMatchingItem_def
  findById_def statusOf_def getProp_def nullish_def orElse_def textOr_def trim_def isWhite_def
  Let_def

lemma pasted_not_blank: "trim (inputText pasted) \<noteq> []"
  by (simp add: pasted_def trim_def isWhite_def)

lemma demo_extraction:
  "iterate (fst (parseBulkItems demoEnv (inputText pasted) [])) =
     Inr [JObj [(utf16 ''name'', JStr (utf16 ''Excavation'')), (utf16 ''quantity'', JNum (Fin 50)),
                (utf16 ''requestedScope'', JStr (utf16 ''Excavation in ordinary soil''))],
          JObj [(utf16 ''name'', JStr (utf16 ''Pipe 25mm'')), (utf16 ''quantity'', JNum (Fin 50)),
                (utf16 ''requestedScope'', JStr (utf16 ''GI pipe'')), (utf16 ''estimatedRate'', JNum (Fin 110))],
          JObj [(utf16 ''name'', JStr (utf16 ''Rebar'')), (utf16 ''quantity'', JNum (Fin (- 5))),
                (utf16 ''requestedScope'', JStr (utf16 ''Steel reinforcement''))],
          JObj [(utf16 ''name'', JStr (utf16 ''Site clearance'')), (utf16 ''requestedScope'', JStr (utf16 ''Clearing''))]]"
  by (simp add: parseBulkItems_def textOr_def Let_def sample_defs)

lemma demo_run_index:
  "handleProcess Index_tsx demoEnv demoCatalog pasted [] = (Inr (quoted Review Review), demoLog)"
  by (simp add: run_defs sample_defs)

lemma demo_run_v2:
  "handleProcess Build_v2 demoEnv demoCatalog pasted [] = (Inr (quoted Matched Review), demoLog)"
  by (simp add: run_defs sample_defs)

lemma demo_run_empty:
  "handleProcess Index_tsx demoEnv [] pasted [] = (Inr unpriced, [ExtractItems (inputText pasted)])"
  by (simp add: run_defs sample_defs)

subsection \<open>Status\<close>

text \<open>The status rule of the second build, and the rule of \<^verbatim>\<open>index.tsx\<close>.\<close>

lemma second_build_status:
  assumes "handleProcess Build_v2 e sor st lg = (Inr st', lg')"
    and "trim (inputText st) \<noteq> []"
  shows "\<forall>it\<in>set (items st').
           (case matchedRate it of
              None \<Rightarrow> status it = NoMatch
            | Some m \<Rightarrow> \<exists>s. item_name it = JStr s
                 \<and> status it = (if toLowerCase e (sor_name m) = toLowerCase e s then Matched else Review))"
proof
  fix it assume "it \<in> set (items st')"
  with handleProcess_Inr[OF assms(1)] assms(2) obtain p where "madeFrom Build_v2 (toLowerCase e) sor p it"
    by (blast dest: list_all2_rightD)
  then show "case matchedRate it of
              None \<Rightarrow> status it = NoMatch
            | Some m \<Rightarrow> \<exists>s. item_name it = JStr s
                 \<and> status it = (if toLowerCase e (sor_name m) = toLowerCase e s then Matched else Review)"
    by (auto simp: madeFrom_def statusOf_def split: option.splits jsval.splits)
qed

lemma index_build_status:
  assumes "handleProcess Index_tsx e sor st lg = (Inr st', lg')"
  shows "\<forall>it\<in>set (items st'). status it = (case matchedRate it of None \<Rightarrow> NoMatch | Some m \<Rightarrow> Review)"
proof
  fix it assume "it \<in> set (items st')"
  with handleProcess_Inr[OF assms] obtain p where "madeFrom Index_tsx (toLowerCase e) sor p it"
    by (blast dest: list_all2_rightD)
  then show "status it = (case matchedRate it of None \<Rightarrow> NoMatch | Some m \<Rightarrow> Review)"
    by (auto simp: madeFrom_def statusOf_def split: option.splits)
qed

text \<open>
  Claim C1. On the sample input \<^verbatim>\<open>handleProcess\<close> of \<^verbatim>\<open>index.tsx\<close> gives the first
  line, whose name \<open>Excavation\<close> is the name of the record matched to it, the status
  \<^verbatim>\<open>review\<close>; the second build gives the same line the status \<^verbatim>\<open>matched\<close>.
\<close>

theorem index_build_marks_equal_names_for_review:
  "fst (handleProcess Index_tsx demoEnv demoCatalog pasted []) = Inr (quoted Review Review)
   \<and> item_name (items (quoted Review Review) ! 0) = JStr (utf16 ''Excavation'')
   \<and> map_option sor_name (matchedRate (items (quoted Review Review) ! 0)) = Some (utf16 ''Excavation'')
   \<and> status (items (quoted Review Review) ! 0) = Review
   \<and> fst (handleProcess Build_v2 demoEnv demoCatalog pasted []) = Inr (quoted Matched Review)
   \<and> status (items (quoted Matched Review) ! 0) = Matched"
  by (simp add: demo_run_index demo_run_v2) (simp add: quoted_def quotedLines_def excavationB_def)

text \<open>
  Claim C10. Every item of a run that ends without an exception has the status
  \<^verbatim>\<open>matched\<close>, \<^verbatim>\<open>review\<close> or \<^verbatim>\<open>no-match\<close>, never \<^verbatim>\<open>pending\<close>, and has a matched
  record exactly when its status is not \<^verbatim>\<open>no-match\<close>.
\<close>

theorem produced_items_status:
  assumes "handleProcess b e sor st lg = (Inr st', lg')"
    and "b = Build_v2 \<longrightarrow> trim (inputText st) \<noteq> []"
  shows "\<forall>it\<in>set (items st').
           status it \<in> {Matched, Review, NoMatch} \<and> (matchedRate it \<noteq> None \<longleftrightarrow> status it \<noteq> NoMatch)"
proof
  fix it assume "it \<in> set (items st')"
  with handleProcess_Inr[OF assms] obtain p where "madeFrom b (toLowerCase e) sor p it"
    by (blast dest: list_all2_rightD)
  then have "statusOf b (toLowerCase e) (matchedRate it) (readProp p ''name'') = Inr (status it)"
    by (simp add: madeFrom_def)
  from statusOf_Inr[OF this]
  show "status it \<in> {Matched, Review, NoMatch} \<and> (matchedRate it \<noteq> None \<longleftrightarrow> status it \<noteq> NoMatch)" .
qed

theorem produced_items_status_witness:
  "handleProcess Build_v2 demoEnv demoCatalog pasted [] = (Inr (quoted Matched Review), demoLog)
   \<and> trim (inputText pasted) \<noteq> []
   \<and> map status (items (quoted Matched Review)) = [Matched, Review, NoMatch, NoMatch]
   \<and> list_all (\<lambda>it. status it \<in> {Matched, Review, NoMatch}
                   \<and> (matchedRate it \<noteq> None \<longleftrightarrow> status it \<noteq> NoMatch))
        (items (quoted Matched Review))"
proof -
  have "\<forall>it\<in>set (items (quoted Matched Review)).
           status it \<in> {Matched, Review, NoMatch} \<and> (matchedRate it \<noteq> None \<longleftrightarrow> status it \<noteq> NoMatch)"
    using produced_items_status [OF demo_run_v2] pasted_not_blank by simp
  then have "list_all (\<lambda>it. status it \<in> {Matched, Review, NoMatch}
                   \<and> (matchedRate it \<noteq> None \<longleftrightarrow> status it \<noteq> NoMatch))
        (items (quoted Matched Review))"
    by (simp only: list_all_iff)
  moreover have "map status (items (quoted Matched Review)) = [Matched, Review, NoMatch, NoMatch]"
    by (simp add: quoted_def quotedLines_def)
  ultimately show ?thesis using demo_run_v2 pasted_not_blank by simp
qed

subsection \<open>Quantity\<close>

text \<open>
  Claim C4, as stated, fails: the third line of the sample input has the quantity
  \<open>- 5\<close>, which is not positive, and the item made from it has the quantity \<open>- 5\<close>,
  not \<open>1\<close>.
\<close>

theorem negative_quantity_is_kept:
  "fst (handleProcess Build_v2 demoEnv demoCatalog pasted []) = Inr (quoted Matched Review)
   \<and> fst (handleProcess Index_tsx demoEnv demoCatalog pasted []) = Inr (quoted Review Review)
   \<and> readProp (JObj [(utf16 ''name'', JStr (utf16 ''Rebar'')), (utf16 ''quantity'', JNum (Fin (- 5))),
                      (utf16 ''requestedScope'', JStr (utf16 ''Steel reinforcement''))]) ''quantity''
       = JNum (Fin (- 5))
   \<and> quantity (items (quoted Matched Review) ! 2) = JNum (Fin (- 5))
   \<and> quantity (items (quoted Review Review) ! 2) = JNum (Fin (- 5))
   \<and> JNum (Fin (- 5)) \<noteq> JNum (Fin 1)"
  by (simp add: demo_run_index demo_run_v2) (simp add: quoted_def quotedLines_def)

text \<open>
  Claim C4, amended. The quantity of each item is the quantity of the extracted value
  it is made from when that quantity is truthy, and \<open>1\<close> otherwise. For a finite number
  this is the number itself unless it is zero: a negative quantity is kept.
\<close>

theorem quantity_kept_when_truthy:
  assumes "handleProcess b e sor st lg = (Inr st', lg')"
    and "b = Build_v2 \<longrightarrow> trim (inputText st) \<noteq> []"
    and "iterate (fst (parseBulkItems e (inputText st) lg)) = Inr ps"
  shows "list_all2 (\<lambda>p it.
            quantity it = (if truthy (readProp p ''quantity'') then readProp p ''quantity''
                           else JNum (Fin 1))
            \<and> (\<forall>q. readProp p ''quantity'' = JNum (Fin q)
                   \<longrightarrow> quantity it = JNum (Fin (if q = 0 then 1 else q))))
          ps (items st')"
proof -
  from handleProcess_Inr[OF assms(1,2)] assms(3)
  have "list_all2 (madeFrom b (toLowerCase e) sor) ps (items st')" by auto
  then show ?thesis
    by (rule list_all2_mono) (auto simp: orElse_def madeFrom_def)
qed

theorem quantity_kept_when_truthy_witness:
  "handleProcess Build_v2 demoEnv demoCatalog pasted [] = (Inr (quoted Matched Review), demoLog)
   \<and> trim (inputText pasted) \<noteq> []
   \<and> map (\<lambda>p. readProp p ''quantity'') (projr (iterate (fst (parseBulkItems demoEnv (inputText pasted) []))))
       = [JNum (Fin 50), JNum (Fin 50), JNum (Fin (- 5)), JUndefined]
   \<and> map quantity (items (quoted Matched Review))
       = [JNum (Fin 50), JNum (Fin 50), JNum (Fin (- 5)), JNum (Fin 1)]"
proof -
  note t = quantity_kept_when_truthy [OF demo_run_v2 _ demo_extraction]
  have "map quantity (items (quoted Matched Review))
       = [JNum (Fin 50), JNum (Fin 50), JNum (Fin (- 5)), JNum (Fin 1)]"
    using t pasted_not_blank by (simp add: quoted_def quotedLines_def)
  then show ?thesis using demo_run_v2 pasted_not_blank by (simp add: demo_extraction)
qed

subsection \<open>Empty catalog, failing extraction, blank input\<close>

text \<open>
  Claim C3. With an empty catalog \<^verbatim>\<open>findBestMatchingItem\<close> answers \<^verbatim>\<open>null\<close> and makes
  no call; a run of \<^verbatim>\<open>handleProcess\<close> makes no call but, at most, the extraction; and
  every item of a run that ends has the status \<^verbatim>\<open>no-match\<close> and no matched record.
\<close>

theorem empty_catalog_never_asks_matcher:
  "findBestMatchingItem e n s [] lg = (JNull, lg)
   \<and> (snd (handleProcess b e [] st lg) = lg
       \<or> snd (handleProcess b e [] st lg) = lg @ [ExtractItems (inputText st)])
   \<and> (\<forall>st'. fst (handleProcess b e [] st lg) = Inr st' \<and> (b = Build_v2 \<longrightarrow> trim (inputText st) \<noteq> [])
          \<longrightarrow> (\<forall>it\<in>set (items st'). status it = NoMatch \<and> matchedRate it = None))"
proof -
  have "status it = NoMatch \<and> matchedRate it = None"
    if "fst (handleProcess b e [] st lg) = Inr st'" "b = Build_v2 \<longrightarrow> trim (inputText st) \<noteq> []"
       "it \<in> set (items st')" for st' it
  proof -
    from that(1) have "handleProcess b e [] st lg = (Inr st', snd (handleProcess b e [] st lg))"
      by (metis prod.collapse)
    from handleProcess_Inr[OF this that(2)] that(3) obtain p where "madeFrom b (toLowerCase e) [] p it"
      by (blast dest: list_all2_rightD)
    then show ?thesis by (auto simp: madeFrom_def statusOf_def split: option.splits)
  qed
  then show ?thesis
    using handleProcess_log_empty[of b e st lg] by (auto simp: findBestMatchingItem_empty)
qed

theorem empty_catalog_never_asks_matcher_witness:
  "handleProcess Index_tsx demoEnv [] pasted [] = (Inr unpriced, [ExtractItems (inputText pasted)])
   \<and> length (items unpriced) = 4
   \<and> list_all (\<lambda>it. status it = NoMatch \<and> matchedRate it = None) (items unpriced)"
proof -
  have "\<forall>it\<in>set (items unpriced). status it = NoMatch \<and> matchedRate it = None"
    using empty_catalog_never_asks_matcher [of demoEnv JNull JNull "[]" Index_tsx pasted]
      demo_run_empty by simp
  then have "list_all (\<lambda>it. status it = NoMatch \<and> matchedRate it = None) (items unpriced)"
    by (simp only: list_all_iff)
  moreover have "length (items unpriced) = 4" by (simp add: unpriced_def quotedLines_def)
  ultimately show ?thesis using demo_run_empty by simp
qed






text \<open>
  Claim C5. On an input that is empty or made of white space only (any of the code units
  that \<^verbatim>\<open>trim\<close> strips, the no-break space and the Unicode spaces and line
  separators among them), with no item yet (the state in which the build button exists),
  the click on the button leaves the component as it is, without items, and makes no
  call; so does \<^verbatim>\<open>handleProcess\<close> of the second build itself.
\<close>

theorem blank_input_builds_nothing:
  assumes "\<forall>c\<in>set (inputText st). isWhite c" and "items st = []"
  shows "(\<exists>st'. clickBuild b e sor st lg = (Inr st', lg) \<and> st' = st \<and> items st' = [])
         \<and> (\<exists>st'. handleProcess Build_v2 e sor st lg = (Inr st', lg) \<and> st' = st \<and> items st' = [])"
  using assms by (simp add: clickBuild_def buildDisabled_def handleProcess_def trim_blank_iff)

text \<open>
  \<^verbatim>\<open>handleProcess\<close> of \<^verbatim>\<open>index.tsx\<close> has no test of the input: called on a blank
  input, which the disabled button prevents, it would ask for the extraction.
\<close>

lemma index_handleProcess_has_no_guard:
  "\<exists>more. snd (handleProcess Index_tsx e sor st lg) = lg @ ExtractItems (inputText st) # more"
proof -
  obtain parsed where pb: "parseBulkItems e (inputText st) lg = (parsed, lg @ [ExtractItems (inputText st)])"
    using parseBulkItems_log[of e "inputText st" lg] by (metis prod.collapse)
  show ?thesis
  proof (cases "iterate parsed")
    case (Inl err)
    then show ?thesis using pb by (simp add: handleProcess_def)
  next
    case (Inr ps)
    obtain r l where pi: "processItems Index_tsx e sor ps [] (lg @ [ExtractItems (inputText st)]) = (r, l)"
      by (cases "processItems Index_tsx e sor ps [] (lg @ [ExtractItems (inputText st)])")
    from processItems_log_grows[of Index_tsx e sor ps "[]" "lg @ [ExtractItems (inputText st)]"] pi
    obtain more where "l = (lg @ [ExtractItems (inputText st)]) @ more" by auto
    then show ?thesis using pb Inr pi
      by (cases r) (simp_all add: handleProcess_def)
  qed
qed

theorem blank_input_builds_nothing_witness:
  "list_all isWhite (inputText blank) \<and> items blank = []
   \<and> clickBuild Index_tsx demoEnv demoCatalog blank [] = (Inr blank, [])
   \<and> clickBuild Build_v2 demoEnv demoCatalog blank [] = (Inr blank, [])
   \<and> handleProcess Build_v2 demoEnv demoCatalog blank [] = (Inr blank, [])"
proof -
  have w: "\<forall>c\<in>set (inputText blank). isWhite c" and i: "items blank = []"
    by (simp_all add: blank_def isWhite_def)
  from w have l: "list_all isWhite (inputText blank)" by (simp only: list_all_iff)
  show ?thesis
    using blank_input_builds_nothing [OF w i, of Index_tsx demoEnv demoCatalog "[]"]
      blank_input_builds_nothing [OF w i, of Build_v2 demoEnv demoCatalog "[]"] l i
    by simp
qed

section \<open>Totals\<close>

lemma lineAmount_exact:
  assumes "wholeAmounts it" and "\<bar>exactAmount it\<bar> < 2 ^ 53"
  shows "lineAmount coerce it = Fin (exactAmount it)" and "isInt (exactAmount it)"
proof -
  from assms(1) obtain q where q: "quantity it = JNum (Fin q)" "isInt q"
    by (auto simp: wholeAmounts_def split: jsval.splits jsnum.splits)
  show "lineAmount coerce it = Fin (exactAmount it)"
  proof (cases "matchedRate it")
    case None
    then show ?thesis using q by (simp add: lineAmount_def exactAmount_def rateOrZero_def)
  next
    case (Some r)
    with assms(1) q obtain x where x: "rate r = Fin x" "isInt x"
      by (auto simp: wholeAmounts_def split: jsnum.splits)
    have e: "exactAmount it = q * x" using q Some x by (simp add: exactAmount_def)
    have "round64 (q * x) = Fin (q * x)"
      using assms(2) e q(2) x(2) by (intro round64_int isInt_mult) simp_all
    then show ?thesis using q Some x e by (simp add: lineAmount_def rateOrZero_def)
  qed
  show "isInt (exactAmount it)"
    using assms(1)
    by (auto simp: wholeAmounts_def exactAmount_def isInt_mult
             split: jsval.splits jsnum.splits option.splits)
qed

text \<open>While the running sum stays below \<open>2 ^ 53\<close>, every addition of the fold is exact.\<close>

lemma total_exact_from:
  assumes "list_all wholeAmounts its" and "isInt a"
    and "\<bar>a\<bar> + (\<Sum>it\<leftarrow>its. \<bar>exactAmount it\<bar>) < 2 ^ 53"
  shows "foldl (\<lambda>sum item. jsAdd sum (lineAmount coerce item)) (Fin a) its
           = Fin (a + (\<Sum>it\<leftarrow>its. exactAmount it))"
  using assms
proof (induction its arbitrary: a)
  case Nil
  then show ?case by simp
next
  case (Cons it its)
  have nn: "0 \<le> (\<Sum>it\<leftarrow>its. \<bar>exactAmount it\<bar>)" by (rule sum_list_nonneg) auto
  have w: "wholeAmounts it" and ws: "list_all wholeAmounts its" using Cons.prems(1) by simp_all
  have b: "\<bar>exactAmount it\<bar> < 2 ^ 53" using Cons.prems(3) nn by simp
  note la = lineAmount_exact[OF w b]
  have s: "\<bar>a + exactAmount it\<bar> < 2 ^ 53" using Cons.prems(3) nn by simp
  have step: "jsAdd (Fin a) (lineAmount coerce it) = Fin (a + exactAmount it)"
    using la Cons.prems(2) s by (simp add: round64_int isInt_add)
  have rest: "\<bar>a + exactAmount it\<bar> + (\<Sum>it\<leftarrow>its. \<bar>exactAmount it\<bar>) < 2 ^ 53"
    using Cons.prems(3) by simp
  show ?case
    using Cons.IH[OF ws isInt_add[OF Cons.prems(2) la(2)] rest] step by (simp add: add.assoc)
qed

text \<open>The totals of three lines priced \<^verbatim>\<open>0.1\<close>, \<^verbatim>\<open>0.2\<close> and \<^verbatim>\<open>0.3\<close>, in the two orders.\<close>

lemma amount_tenth:
  "lineAmount noCoercion (pricedAt (round64 (1 / 10))) = Fin (3602879701896397 / 36028797018963968)"
  by (simp add: lineAmount_def pricedAt_def rateOrZero_def tenth keep_tenth)

lemma amount_fifth:
  "lineAmount noCoercion (pricedAt (round64 (1 / 5))) = Fin (3602879701896397 / 18014398509481984)"
  by (simp add: lineAmount_def pricedAt_def rateOrZero_def fifth keep_fifth)

lemma amount_three_tenths:
  "lineAmount noCoercion (pricedAt (round64 (3 / 10))) = Fin (5404319552844595 / 18014398509481984)"
  by (simp add: lineAmount_def pricedAt_def rateOrZero_def three_tenths keep_three_tenths)

lemma total_up:
  "calculateTotal noCoercion
     [pricedAt (round64 (1 / 10)), pricedAt (round64 (1 / 5)), pricedAt (round64 (3 / 10))]
   = Fin (1351079888211149 / 2251799813685248)"
  by (simp only: calculateTotal_def foldl.simps amount_tenth amount_fifth amount_three_tenths
        jsAdd.simps sum_up_1 sum_up_2 sum_up_3)

lemma total_down:
  "calculateTotal noCoercion
     [pricedAt (round64 (3 / 10)), pricedAt (round64 (1 / 5)), pricedAt (round64 (1 / 10))]
   = Fin (5404319552844595 / 9007199254740992)"
  by (simp only: calculateTotal_def foldl.simps amount_tenth amount_fifth amount_three_tenths
        jsAdd.simps sum_down_1 sum_down_2 sum_down_3)

text \<open>
  Claim C9, as stated, fails: three lines of quantity \<open>1\<close> priced \<^verbatim>\<open>0.1\<close>, \<^verbatim>\<open>0.2\<close> and
  \<^verbatim>\<open>0.3\<close> total \<^verbatim>\<open>0.6000000000000001\<close>, and the same lines in the reverse order total
  \<^verbatim>\<open>0.6\<close>.
\<close>

theorem total_depends_on_order:
  "mset [pricedAt (round64 (1 / 10)), pricedAt (round64 (1 / 5)), pricedAt (round64 (3 / 10))]
     = mset [pricedAt (round64 (3 / 10)), pricedAt (round64 (1 / 5)), pricedAt (round64 (1 / 10))]
   \<and> calculateTotal noCoercion
        [pricedAt (round64 (1 / 10)), pricedAt (round64 (1 / 5)), pricedAt (round64 (3 / 10))]
       = Fin (1351079888211149 / 2251799813685248)
   \<and> calculateTotal noCoercion
        [pricedAt (round64 (3 / 10)), pricedAt (round64 (1 / 5)), pricedAt (round64 (1 / 10))]
       = Fin (5404319552844595 / 9007199254740992)
   \<and> Fin (1351079888211149 / 2251799813685248) \<noteq> Fin (5404319552844595 / 9007199254740992)"
  using total_up total_down by (simp add: add.commute)

text \<open>
  Claim C9, amended. When the quantity and the matched rate of every item are whole
  numbers and the absolute values of the exact line amounts sum to less than \<open>2 ^ 53\<close>,
  the grand total is the exact sum of quantity \<open>\<times>\<close> rate over the items (zero for an item
  without a matched record), and every permutation of the items has the same total.
\<close>

theorem total_exact_on_whole_amounts:
  assumes "list_all wholeAmounts its" and "(\<Sum>it\<leftarrow>its. \<bar>exactAmount it\<bar>) < 2 ^ 53"
  shows "calculateTotal coerce its = Fin (\<Sum>it\<leftarrow>its. exactAmount it)
         \<and> (\<forall>its'. mset its' = mset its \<longrightarrow> calculateTotal coerce its' = calculateTotal coerce its)"
proof -
  have ex: "calculateTotal coerce xs = Fin (\<Sum>it\<leftarrow>xs. exactAmount it)"
    if "list_all wholeAmounts xs" "(\<Sum>it\<leftarrow>xs. \<bar>exactAmount it\<bar>) < 2 ^ 53" for xs
    using total_exact_from[OF that(1), of 0 coerce] that(2) by (simp add: calculateTotal_def)
  have "calculateTotal coerce its' = calculateTotal coerce its" if m: "mset its' = mset its" for its'
  proof -
    have "set its' = set its" using m by (rule mset_eq_setD)
    then have w: "list_all wholeAmounts its'" using assms(1) by (simp add: list_all_iff)
    have sa: "(\<Sum>it\<leftarrow>its'. \<bar>exactAmount it\<bar>) = (\<Sum>it\<leftarrow>its. \<bar>exactAmount it\<bar>)"
      using m by (metis mset_map sum_mset_sum_list)
    have se: "(\<Sum>it\<leftarrow>its'. exactAmount it) = (\<Sum>it\<leftarrow>its. exactAmount it)"
      using m by (metis mset_map sum_mset_sum_list)
    show ?thesis using ex[OF w] ex[OF assms] sa se assms(2) by simp
  qed
  with ex[OF assms] show ?thesis by blast
qed

theorem total_exact_on_whole_amounts_witness:
  "list_all wholeAmounts (items (quoted Matched Review))
   \<and> (\<Sum>it\<leftarrow>items (quoted Matched Review). \<bar>exactAmount it\<bar>) = 10000
   \<and> calculateTotal noCoercion (items (quoted Matched Review)) = Fin 10000
   \<and> calculateTotal noCoercion (rev (items (quoted Matched Review))) = Fin 10000"
proof -
  have w: "list_all wholeAmounts (items (quoted Matched Review))"
    by (simp add: quoted_def quotedLines_def wholeAmounts_def isInt_def excavationB_def giPipe_def)
  have a: "(\<Sum>it\<leftarrow>items (quoted Matched Review). \<bar>exactAmount it\<bar>) = 10000"
    and e: "(\<Sum>it\<leftarrow>items (quoted Matched Review). exactAmount it) = 10000"
    by (simp_all add: quoted_def quotedLines_def exactAmount_def excavationB_def giPipe_def)
  have b: "(\<Sum>it\<leftarrow>items (quoted Matched Review). \<bar>exactAmount it\<bar>) < 2 ^ 53"
    by (simp only: a) simp
  note t = total_exact_on_whole_amounts [OF w b, of noCoercion]
  have "calculateTotal noCoercion (items (quoted Matched Review)) = Fin 10000"
    using t e by simp
  moreover have "calculateTotal noCoercion (rev (items (quoted Matched Review))) = Fin 10000"
    using t e by simp
  ultimately show ?thesis using w a by simp
qed

text \<open>
  The line of the sample run for \<open>Pipe 25mm\<close>, quantity \<open>50\<close>, matched to \<open>GI Pipe 25mm\<close>
  at the rate \<open>120\<close>: status \<^verbatim>\<open>review\<close>, amount \<open>6000\<close>.
\<close>

lemma pipe_line_amount:
  "status (items (quoted Matched Review) ! 1) = Review
   \<and> lineAmount noCoercion (items (quoted Matched Review) ! 1) = Fin 6000"
proof -
  have "wholeAmounts (items (quoted Matched Review) ! 1)"
    and "exactAmount (items (quoted Matched Review) ! 1) = 6000"
    by (simp_all add: quoted_def quotedLines_def wholeAmounts_def exactAmount_def isInt_def giPipe_def)
  then show ?thesis
    using lineAmount_exact(1)[of "items (quoted Matched Review) ! 1" noCoercion]
    by (simp add: quoted_def quotedLines_def)
qed

end
